theory Spec2Isabelle
  imports Complex_Main
begin

section \<open>Values shared by the packages\<close>

text \<open>
  Go's dynamically typed JSON values (\<^verbatim>\<open>interface{}\<close> as produced by a JSON decoder:
  nil, bool, float64, string, \<^verbatim>\<open>[]interface{}\<close>, \<^verbatim>\<open>map[string]interface{}\<close>) and JSON
  documents (the bytes \<^verbatim>\<open>json.Marshal\<close> returns, taken up to the document they denote) are
  the same tagged union. \<open>JNull\<close> is the nil interface value.
\<close>

datatype json =
    JNull
  | JBool bool
  | JNumber real
  | JString string
  | JArray "json list"
  | JObject "(string \<times> json) list"

text \<open>A Go \<^verbatim>\<open>error\<close> value is its message; \<open>None\<close> is \<^verbatim>\<open>nil\<close>.\<close>

type_synonym go_error = "string option"

text \<open>\<^verbatim>\<open>types.PolicyResult\<close> and \<^verbatim>\<open>types.ValidationResult\<close> (internal/types/types.go).\<close>

record PolicyResult =
  Allowed :: bool
  Error :: string

record ValidationResult =
  Valid :: bool
  Errors :: "string list"
  Details :: string

section \<open>Package opa: the policy manager\<close>

text \<open>
  The values \<^verbatim>\<open>CreatePolicyInput\<close> stores in its \<^verbatim>\<open>map[string]interface{}\<close>: a string
  (method, path), the header map, and the body map (\<open>None\<close> is the nil map).
\<close>

datatype input_value =
    InString string
  | InHeaders "string \<rightharpoonup> string"
  | InBody "(string \<times> json) list option"

type_synonym policy_input = "string \<rightharpoonup> input_value"

text \<open>
  The OPA library is external. A \<^verbatim>\<open>rego.PreparedEvalQuery\<close> is taken as the function its
  \<^verbatim>\<open>Eval\<close> method computes: an error (\<open>Inl\<close>) or a \<^verbatim>\<open>rego.ResultSet\<close>, a list of
  results, each the list of the \<^verbatim>\<open>Value\<close>s of its \<^verbatim>\<open>Expressions\<close>.
\<close>

type_synonym Result = "json list"
type_synonym ResultSet = "Result list"
type_synonym PreparedEvalQuery = "policy_input \<Rightarrow> string + ResultSet"

record PolicyManager =
  policies :: "string \<rightharpoonup> PreparedEvalQuery"

definition NewPolicyManager :: PolicyManager where
  "NewPolicyManager = \<lparr>policies = Map.empty\<rparr>"

text \<open>
  \<^verbatim>\<open>EvaluatePolicy\<close>: the pair is the Go pair \<^verbatim>\<open>(*types.PolicyResult, error)\<close>.
  The type assertion \<^verbatim>\<open>Value.(bool)\<close> succeeds on \<open>JBool\<close> only.
\<close>

definition EvaluatePolicy ::
  "PolicyManager \<Rightarrow> string \<Rightarrow> policy_input \<Rightarrow> PolicyResult \<times> go_error" where
  "EvaluatePolicy pm policyName input =
     (case policies pm policyName of
        None \<Rightarrow>
          (\<lparr>Allowed = False, Error = ''Policy '' @ policyName @ '' not found''\<rparr>, None)
      | Some preparedQuery \<Rightarrow>
          (case preparedQuery input of
             Inl err \<Rightarrow>
               (\<lparr>Allowed = False, Error = ''Policy evaluation error: '' @ err\<rparr>, None)
           | Inr results \<Rightarrow>
               (case results of
                  [] \<Rightarrow> (\<lparr>Allowed = False, Error = ''No policy result found''\<rparr>, None)
                | r0 # _ \<Rightarrow>
                    (case r0 of
                       [] \<Rightarrow> (\<lparr>Allowed = False, Error = ''No policy result found''\<rparr>, None)
                     | v # _ \<Rightarrow>
                         (case v of
                            JBool allowed \<Rightarrow> (\<lparr>Allowed = allowed, Error = ''''\<rparr>, None)
                          | _ \<Rightarrow>
                              (\<lparr>Allowed = False,
                                Error = ''Policy result is not a boolean''\<rparr>, None))))))"

text \<open>
  What a request handler does is observed through the calls it makes, in order.
  \<open>EvaluatePolicy_call n\<close> is one call of \<^verbatim>\<open>pm.EvaluatePolicy(n, input)\<close>.
\<close>

datatype event =
    ValidateRequest_call
  | EvaluatePolicy_call string
  | GenerateStatusResponse_call
  | GenerateTrafficResponse_call
  | ValidateStatusResponse_call
  | ValidateTrafficResponse_call
  | log_Printf_ResponseValidationFailed "string list"

text \<open>
  The \<^verbatim>\<open>for _, policyName := range policyNames\<close> loop of \<^verbatim>\<open>EvaluatePolicies\<close>, with the
  list of the calls made; falling out of the loop is the final \<^verbatim>\<open>Allowed: true\<close>.
\<close>

fun EvaluatePolicies_loop ::
  "PolicyManager \<Rightarrow> string list \<Rightarrow> policy_input \<Rightarrow> (PolicyResult \<times> go_error) \<times> event list" where
  "EvaluatePolicies_loop pm [] input = ((\<lparr>Allowed = True, Error = ''''\<rparr>, None), [])"
| "EvaluatePolicies_loop pm (policyName # rest) input =
     (case EvaluatePolicy pm policyName input of
        (result, Some err) \<Rightarrow>
          ((\<lparr>Allowed = False, Error = ''Policy evaluation error: '' @ err\<rparr>, None),
           [EvaluatePolicy_call policyName])
      | (result, None) \<Rightarrow>
          if \<not> Allowed result then
            ((\<lparr>Allowed = False,
               Error = ''Policy '' @ policyName @ '' denied the request''\<rparr>, None),
             [EvaluatePolicy_call policyName])
          else
            (case EvaluatePolicies_loop pm rest input of
               (r, calls) \<Rightarrow> (r, EvaluatePolicy_call policyName # calls)))"

definition EvaluatePolicies ::
  "PolicyManager \<Rightarrow> string list \<Rightarrow> policy_input \<Rightarrow> (PolicyResult \<times> go_error) \<times> event list" where
  "EvaluatePolicies pm policyNames input =
     (if length policyNames = 0 then ((\<lparr>Allowed = True, Error = ''''\<rparr>, None), [])
      else EvaluatePolicies_loop pm policyNames input)"

text \<open>
  \<^verbatim>\<open>CreatePolicyInput\<close>. The body is any Go value: \<open>None\<close> is the nil interface.
  Both library calls are taken as they come: \<open>json_Marshal\<close> is \<^verbatim>\<open>json.Marshal\<close> on the
  non-nil values, \<open>json_Unmarshal\<close> is \<^verbatim>\<open>json.Unmarshal(bodyBytes, &bodyMap)\<close> with
  \<^verbatim>\<open>bodyMap map[string]interface{}\<close>: \<open>Inl\<close> is the error, \<open>Inr\<close> the map it leaves in
  \<^verbatim>\<open>bodyMap\<close> (\<open>None\<close> the nil map).
\<close>

definition CreatePolicyInput ::
  "('v \<Rightarrow> string + json) \<Rightarrow> (json \<Rightarrow> string + (string \<times> json) list option)
     \<Rightarrow> string \<Rightarrow> string \<Rightarrow> (string \<rightharpoonup> string) \<Rightarrow> 'v option \<Rightarrow> policy_input" where
  "CreatePolicyInput json_Marshal json_Unmarshal method path headers body =
     (let input = [''method'' \<mapsto> InString method, ''path'' \<mapsto> InString path,
                   ''headers'' \<mapsto> InHeaders headers]
      in case body of
           None \<Rightarrow> input
         | Some b \<Rightarrow>
             (case json_Marshal b of
                Inl err \<Rightarrow> input
              | Inr bodyBytes \<Rightarrow>
                  (case json_Unmarshal bodyBytes of
                     Inl err \<Rightarrow> input
                   | Inr bodyMap \<Rightarrow> input(''body'' \<mapsto> InBody bodyMap))))"

section \<open>Package types: the mock responses\<close>

text \<open>A \<^verbatim>\<open>time.Time\<close> is an instant on the clock; the clock itself is external.\<close>

type_synonym time = int

type_synonym schema_map = "(string \<times> json) list"

record StatusResponse =
  Status :: string
  Timestamp :: time
  Version :: string
  Uptime :: int

record TrafficRequest =
  TrafficType :: string
  Volume :: real
  Priority :: string
  Metadata :: "schema_map option"

text \<open>
  \<^verbatim>\<open>types.TrafficResponse\<close>; its \<^verbatim>\<open>Status\<close> and \<^verbatim>\<open>Timestamp\<close> fields carry a suffix,
  the names being taken by \<open>StatusResponse\<close>.
\<close>

record TrafficResponse =
  ID :: string
  ServiceID :: string
  Status_T :: string
  Message :: string
  Timestamp_T :: time

definition GenerateStatusResponse :: "time \<Rightarrow> StatusResponse" where
  "GenerateStatusResponse now =
     \<lparr>Status = ''healthy'', Timestamp = now, Version = ''1.0.0'', Uptime = 3600\<rparr>"

text \<open>\<open>time_Format\<close> is \<^verbatim>\<open>Time.Format("20060102150405")\<close>.\<close>

definition generateID :: "(time \<Rightarrow> string) \<Rightarrow> time \<Rightarrow> string" where
  "generateID time_Format now = ''traffic-'' @ time_Format now"

text \<open>
  \<^verbatim>\<open>GenerateTrafficResponse\<close> reads the clock twice: \<open>now1\<close> inside \<^verbatim>\<open>generateID\<close>, then
  \<open>now2\<close> for the timestamp.
\<close>

definition GenerateTrafficResponse ::
  "(time \<Rightarrow> string) \<Rightarrow> time \<Rightarrow> time \<Rightarrow> string \<Rightarrow> TrafficRequest \<Rightarrow> TrafficResponse" where
  "GenerateTrafficResponse time_Format now1 now2 serviceID request =
     \<lparr>ID = generateID time_Format now1, ServiceID = serviceID, Status_T = ''accepted'',
      Message = ''Traffic request processed successfully'', Timestamp_T = now2\<rparr>"

section \<open>Package validator: the schema validator\<close>

text \<open>
  The gojsonschema library is external: \<open>Validate\<close> below is \<^verbatim>\<open>gojsonschema.Validate\<close> on
  the two byte loaders, its result reduced to \<^verbatim>\<open>Valid()\<close> and the \<^verbatim>\<open>String()\<close> of each of
  \<^verbatim>\<open>Errors()\<close>.
\<close>

record gojsonschema_Result =
  result_Valid :: bool
  result_Errors :: "string list"

text \<open>The decimal digits \<^verbatim>\<open>%d\<close> prints for a length.\<close>

fun Itoa :: "nat \<Rightarrow> string" where
  "Itoa n = (if n < 10 then [''0123456789'' ! n]
             else Itoa (n div 10) @ [''0123456789'' ! (n mod 10)])"

declare Itoa.simps [simp del]

text \<open>
  \<^verbatim>\<open>ValidateRequest\<close>. A schema is a \<^verbatim>\<open>map[string]interface{}\<close>: \<open>None\<close> is the nil map.
  \<open>marshal_schema\<close> and \<open>marshal_data\<close> are \<^verbatim>\<open>json.Marshal\<close> on the schema and on the data.
\<close>

definition ValidateRequest ::
  "(schema_map \<Rightarrow> string + json) \<Rightarrow> ('d \<Rightarrow> string + json)
     \<Rightarrow> (json \<Rightarrow> json \<Rightarrow> string + gojsonschema_Result)
     \<Rightarrow> schema_map option \<Rightarrow> 'd \<Rightarrow> ValidationResult" where
  "ValidateRequest marshal_schema marshal_data Validate schema data =
     (case schema of
        None \<Rightarrow> \<lparr>Valid = True, Errors = [], Details = ''''\<rparr>
      | Some sch \<Rightarrow>
          if length sch = 0 then \<lparr>Valid = True, Errors = [], Details = ''''\<rparr>
          else
            (case marshal_schema sch of
               Inl err \<Rightarrow>
                 \<lparr>Valid = False, Errors = [''Invalid schema: '' @ err], Details = ''''\<rparr>
             | Inr schemaBytes \<Rightarrow>
                 (case marshal_data data of
                    Inl err \<Rightarrow>
                      \<lparr>Valid = False, Errors = [''Invalid data: '' @ err], Details = ''''\<rparr>
                  | Inr dataBytes \<Rightarrow>
                      (case Validate schemaBytes dataBytes of
                         Inl err \<Rightarrow>
                           \<lparr>Valid = False, Errors = [''Validation error: '' @ err],
                            Details = ''''\<rparr>
                       | Inr result \<Rightarrow>
                           if result_Valid result then
                             \<lparr>Valid = True, Errors = [], Details = ''''\<rparr>
                           else
                             (let errors = result_Errors result
                              in \<lparr>Valid = False, Errors = errors,
                                  Details = ''Validation failed with ''
                                    @ Itoa (length errors) @ '' errors''\<rparr>)))))"

definition ValidateResponse ::
  "(schema_map \<Rightarrow> string + json) \<Rightarrow> ('d \<Rightarrow> string + json)
     \<Rightarrow> (json \<Rightarrow> json \<Rightarrow> string + gojsonschema_Result)
     \<Rightarrow> schema_map option \<Rightarrow> 'd \<Rightarrow> ValidationResult" where
  "ValidateResponse marshal_schema marshal_data Validate schema data =
     ValidateRequest marshal_schema marshal_data Validate schema data"

text \<open>The schema literals of \<^verbatim>\<open>ValidateTrafficResponse\<close> and \<^verbatim>\<open>ValidateStatusResponse\<close>.\<close>

definition traffic_response_schema :: schema_map where
  "traffic_response_schema =
     [(''type'', JString ''object''),
      (''properties'', JObject
         [(''id'', JObject [(''type'', JString ''string'')]),
          (''serviceId'', JObject [(''type'', JString ''string'')]),
          (''status'', JObject
             [(''type'', JString ''string''),
              (''enum'', JArray [JString ''accepted'', JString ''rejected'',
                                  JString ''pending''])]),
          (''message'', JObject [(''type'', JString ''string'')]),
          (''timestamp'', JObject
             [(''type'', JString ''string''), (''format'', JString ''date-time'')])]),
      (''required'', JArray [JString ''id'', JString ''serviceId'', JString ''status'',
                              JString ''message'', JString ''timestamp''])]"

definition status_response_schema :: schema_map where
  "status_response_schema =
     [(''type'', JString ''object''),
      (''properties'', JObject
         [(''status'', JObject
             [(''type'', JString ''string''),
              (''enum'', JArray [JString ''healthy'', JString ''degraded'',
                                  JString ''unhealthy''])]),
          (''timestamp'', JObject
             [(''type'', JString ''string''), (''format'', JString ''date-time'')]),
          (''version'', JObject [(''type'', JString ''string'')]),
          (''uptime'', JObject [(''type'', JString ''number'')])]),
      (''required'', JArray [JString ''status'', JString ''timestamp'', JString ''version'',
                              JString ''uptime''])]"

text \<open>\<^verbatim>\<open>strings.TrimPrefix\<close> and \<^verbatim>\<open>strings.Join\<close>, then \<^verbatim>\<open>FormatValidationErrors\<close>.\<close>

definition TrimPrefix :: "string \<Rightarrow> string \<Rightarrow> string" where
  "TrimPrefix s pre = (if take (length pre) s = pre then drop (length pre) s else s)"

fun Join :: "string list \<Rightarrow> string \<Rightarrow> string" where
  "Join [] sep = ''''"
| "Join [x] sep = x"
| "Join (x # y # ys) sep = x @ sep @ Join (y # ys) sep"

definition FormatValidationErrors :: "string list \<Rightarrow> string" where
  "FormatValidationErrors errors =
     (if length errors = 0 then ''''
      else Join (map (\<lambda>err. TrimPrefix (TrimPrefix err ''(root): '') ''I[0,'') errors) ''; '')"

text \<open>
  What the request path takes from outside the repository: \<^verbatim>\<open>json.Marshal\<close> at the four
  types it is applied to, \<^verbatim>\<open>json.Unmarshal\<close> into a \<^verbatim>\<open>map[string]interface{}\<close>,
  \<^verbatim>\<open>gojsonschema.Validate\<close>, \<^verbatim>\<open>json.Unmarshal\<close> into a \<^verbatim>\<open>TrafficRequest\<close> (its effect on
  the struct, the error being dropped by the caller), the successive readings of
  \<^verbatim>\<open>time.Now()\<close> and \<^verbatim>\<open>Time.Format\<close>.
\<close>

record deps =
  json_Marshal_schema :: "schema_map \<Rightarrow> string + json"
  json_Marshal_value :: "json \<Rightarrow> string + json"
  json_Marshal_StatusResponse :: "StatusResponse \<Rightarrow> string + json"
  json_Marshal_TrafficResponse :: "TrafficResponse \<Rightarrow> string + json"
  json_Unmarshal_map :: "json \<Rightarrow> string + (string \<times> json) list option"
  gojsonschema_Validate :: "json \<Rightarrow> json \<Rightarrow> string + gojsonschema_Result"
  json_Unmarshal_TrafficRequest :: "json \<Rightarrow> TrafficRequest \<Rightarrow> TrafficRequest"
  time_Now :: "nat \<Rightarrow> time"
  time_Format :: "time \<Rightarrow> string"

definition ValidateTrafficResponse :: "deps \<Rightarrow> TrafficResponse \<Rightarrow> ValidationResult" where
  "ValidateTrafficResponse d response =
     ValidateResponse (json_Marshal_schema d) (json_Marshal_TrafficResponse d)
       (gojsonschema_Validate d) (Some traffic_response_schema) response"

definition ValidateStatusResponse :: "deps \<Rightarrow> StatusResponse \<Rightarrow> ValidationResult" where
  "ValidateStatusResponse d response =
     ValidateResponse (json_Marshal_schema d) (json_Marshal_StatusResponse d)
       (gojsonschema_Validate d) (Some status_response_schema) response"

section \<open>Package router: registration and the request handlers\<close>

record RouteConfig =
  RouteName :: string
  Method :: string
  RequestSchema :: "schema_map option"
  ResponseSchema :: "schema_map option"
  Policies :: "string list"

record RouteManager =
  policyManager :: PolicyManager

text \<open>
  Of the \<^verbatim>\<open>gin.Context\<close> a handler reads the request headers, the URL path and the outcome
  of \<^verbatim>\<open>c.ShouldBindJSON(&requestBody)\<close>: an error, or the decoded body.
\<close>

record Request =
  Header :: "string \<rightharpoonup> string list"
  URL_Path :: "string"
  ShouldBindJSON :: "string + json"

text \<open>
  A handler answers with one \<^verbatim>\<open>c.JSON(code, obj)\<close>. The object is a \<^verbatim>\<open>gin.H\<close>, one of
  the two response structs, or the nil interface.
\<close>

datatype response_obj =
    H "(string \<times> json) list"
  | StatusObj StatusResponse
  | TrafficObj TrafficResponse
  | NilObj

record Response =
  code :: nat
  obj :: response_obj

text \<open>
  The gin library is external. \<open>gin_Handle router method path route\<close> is the call
  \<^verbatim>\<open>router.GET(path, rm.createHandler(route))\<close> (or \<^verbatim>\<open>POST\<close>, \<^verbatim>\<open>PUT\<close>, \<^verbatim>\<open>DELETE\<close>) on the
  engine: the engine with the handler added, or \<open>None\<close> when gin panics, as it does on a
  path that is already registered for the method or conflicts with a registered one.
  \<^verbatim>\<open>registerRoute\<close> does not recover, so the panic is its own outcome \<open>None\<close>; otherwise it
  returns the engine and its Go error.
\<close>

definition registerRoute ::
  "('e \<Rightarrow> string \<Rightarrow> string \<Rightarrow> RouteConfig \<Rightarrow> 'e option) \<Rightarrow> 'e \<Rightarrow> RouteConfig
     \<Rightarrow> ('e \<times> go_error) option" where
  "registerRoute gin_Handle router route =
     (if Method route = ''GET'' then
        (case gin_Handle router ''GET'' (RouteName route) route of
           None \<Rightarrow> None
         | Some router' \<Rightarrow> Some (router', None))
      else if Method route = ''POST'' then
        (case gin_Handle router ''POST'' (RouteName route) route of
           None \<Rightarrow> None
         | Some router' \<Rightarrow> Some (router', None))
      else if Method route = ''PUT'' then
        (case gin_Handle router ''PUT'' (RouteName route) route of
           None \<Rightarrow> None
         | Some router' \<Rightarrow> Some (router', None))
      else if Method route = ''DELETE'' then
        (case gin_Handle router ''DELETE'' (RouteName route) route of
           None \<Rightarrow> None
         | Some router' \<Rightarrow> Some (router', None))
      else Some (router, Some (''unsupported HTTP method: '' @ Method route)))"

text \<open>\<^verbatim>\<open>strings.Contains\<close>, \<^verbatim>\<open>strings.HasSuffix\<close>, and \<^verbatim>\<open>strings.Split\<close> at a one-byte separator.\<close>

fun Contains :: "string \<Rightarrow> string \<Rightarrow> bool" where
  "Contains [] substr = (substr = [])"
| "Contains (c # s) substr = (take (length substr) (c # s) = substr \<or> Contains s substr)"

definition HasSuffix :: "string \<Rightarrow> string \<Rightarrow> bool" where
  "HasSuffix s suffix =
     (length suffix \<le> length s \<and> drop (length s - length suffix) s = suffix)"

fun Split :: "string \<Rightarrow> char \<Rightarrow> string list" where
  "Split [] sep = [[]]"
| "Split (c # s) sep =
     (if c = sep then [] # Split s sep
      else (case Split s sep of [] \<Rightarrow> [[c]] | p # ps \<Rightarrow> (c # p) # ps))"

text \<open>
  \<^verbatim>\<open>handleGET\<close>. The result is the \<^verbatim>\<open>c.JSON\<close> answer and the calls made, in order.
  The nil body handed to \<^verbatim>\<open>CreatePolicyInput\<close> is \<open>None\<close>.
\<close>

definition handleGET ::
  "RouteManager \<Rightarrow> deps \<Rightarrow> RouteConfig \<Rightarrow> (string \<rightharpoonup> string) \<Rightarrow> Response \<times> event list" where
  "handleGET rm d route headers =
     (let input = CreatePolicyInput (json_Marshal_value d) (json_Unmarshal_map d) ''GET''
                   (RouteName route) headers None
      in case EvaluatePolicies (policyManager rm) (Policies route) input of
           ((policyResult, Some err), calls) \<Rightarrow>
             (\<lparr>code = 500,
               obj = H [(''error'', JString (''Policy evaluation error: '' @ err))]\<rparr>, calls)
         | ((policyResult, None), calls) \<Rightarrow>
             if \<not> Allowed policyResult then
               (\<lparr>code = 403,
                 obj = H [(''error'', JString (''Request denied by policy: ''
                                                 @ Error policyResult))]\<rparr>, calls)
             else if RouteName route = ''/v1/status'' then
               (let statusResponse = GenerateStatusResponse (time_Now d 0);
                    validationResult = ValidateStatusResponse d statusResponse
                in (\<lparr>code = 200, obj = StatusObj statusResponse\<rparr>,
                    calls @ [GenerateStatusResponse_call, ValidateStatusResponse_call]
                      @ (if \<not> Valid validationResult
                         then [log_Printf_ResponseValidationFailed (Errors validationResult)]
                         else [])))
             else
               (\<lparr>code = 200,
                 obj = H [(''message'', JString ''GET request processed successfully''),
                          (''route'', JString (RouteName route)),
                          (''method'', JString (Method route))]\<rparr>, calls))"

text \<open>
  \<^verbatim>\<open>handlePOST\<close>. The decoded body \<open>JNull\<close> is the nil interface, so it reaches
  \<^verbatim>\<open>CreatePolicyInput\<close> as \<open>None\<close>.
\<close>

definition handlePOST ::
  "RouteManager \<Rightarrow> deps \<Rightarrow> RouteConfig \<Rightarrow> (string \<rightharpoonup> string) \<Rightarrow> Request
     \<Rightarrow> Response \<times> event list" where
  "handlePOST rm d route headers c =
     (case ShouldBindJSON c of
        Inl err \<Rightarrow>
          (\<lparr>code = 400, obj = H [(''error'', JString (''Invalid JSON: '' @ err))]\<rparr>, [])
      | Inr requestBody \<Rightarrow>
          (let validationResult =
                 ValidateRequest (json_Marshal_schema d) (json_Marshal_value d)
                   (gojsonschema_Validate d) (RequestSchema route) requestBody
           in if \<not> Valid validationResult then
                (\<lparr>code = 400,
                  obj = H [(''error'', JString ''Request validation failed''),
                           (''details'',
                            JString (FormatValidationErrors (Errors validationResult)))]\<rparr>,
                 [ValidateRequest_call])
              else
                (let input = CreatePolicyInput (json_Marshal_value d) (json_Unmarshal_map d)
                               ''POST'' (RouteName route) headers
                               (if requestBody = JNull then None else Some requestBody)
                 in case EvaluatePolicies (policyManager rm) (Policies route) input of
                      ((policyResult, Some err), calls) \<Rightarrow>
                        (\<lparr>code = 500,
                          obj = H [(''error'',
                                    JString (''Policy evaluation error: '' @ err))]\<rparr>,
                         ValidateRequest_call # calls)
                    | ((policyResult, None), calls) \<Rightarrow>
                        if \<not> Allowed policyResult then
                          (\<lparr>code = 403,
                            obj = H [(''error'',
                                      JString (''Request denied by policy: ''
                                                 @ Error policyResult))]\<rparr>,
                           ValidateRequest_call # calls)
                        else if Contains (RouteName route) ''/services/''
                                \<and> HasSuffix (RouteName route) ''/traffic'' then
                          (let pathParts = Split (URL_Path c) CHR ''/''
                           in if length pathParts \<ge> 4 then
                                (let serviceID = pathParts ! 3;
                                     trafficRequest =
                                       (case json_Marshal_value d requestBody of
                                          Inl err \<Rightarrow>
                                            \<lparr>TrafficType = '''', Volume = 0, Priority = '''',
                                             Metadata = None\<rparr>
                                        | Inr requestBytes \<Rightarrow>
                                            json_Unmarshal_TrafficRequest d requestBytes
                                              \<lparr>TrafficType = '''', Volume = 0,
                                               Priority = '''', Metadata = None\<rparr>);
                                     trafficResponse =
                                       GenerateTrafficResponse (time_Format d) (time_Now d 0)
                                         (time_Now d 1) serviceID trafficRequest;
                                     responseValidation =
                                       ValidateTrafficResponse d trafficResponse
                                 in (\<lparr>code = 200, obj = TrafficObj trafficResponse\<rparr>,
                                     ValidateRequest_call # calls
                                       @ [GenerateTrafficResponse_call,
                                          ValidateTrafficResponse_call]
                                       @ (if \<not> Valid responseValidation
                                          then [log_Printf_ResponseValidationFailed
                                                  (Errors responseValidation)]
                                          else [])))
                              else (\<lparr>code = 200, obj = NilObj\<rparr>, ValidateRequest_call # calls))
                        else
                          (\<lparr>code = 200,
                            obj = H [(''message'', JString ''POST request processed successfully''),
                                     (''route'', JString (RouteName route)),
                                     (''method'', JString (Method route)),
                                     (''data'', requestBody)]\<rparr>,
                           ValidateRequest_call # calls))))"

text \<open>
  The closure \<^verbatim>\<open>createHandler\<close> returns: it keeps the first value of every header that has
  one, then dispatches on the configured method.
\<close>

definition createHandler ::
  "RouteManager \<Rightarrow> deps \<Rightarrow> RouteConfig \<Rightarrow> Request \<Rightarrow> Response \<times> event list" where
  "createHandler rm d route c =
     (let headers = (\<lambda>key. case Header c key of
                               None \<Rightarrow> None
                             | Some values \<Rightarrow> (if length values > 0 then Some (hd values)
                                               else None))
      in if Method route = ''GET'' then handleGET rm d route headers
         else if Method route = ''POST'' then handlePOST rm d route headers c
         else (\<lparr>code = 405, obj = H [(''error'', JString ''Method not allowed'')]\<rparr>, []))"


section \<open>Notions the properties are stated with\<close>

text \<open>A named policy allows an input on its own: \<^verbatim>\<open>EvaluatePolicy\<close> answers \<^verbatim>\<open>Allowed: true\<close>.\<close>

definition policy_allows :: "PolicyManager \<Rightarrow> policy_input \<Rightarrow> string \<Rightarrow> bool" where
  "policy_allows pm input n = Allowed (fst (EvaluatePolicy pm n input))"

text \<open>
  \<^verbatim>\<open>PolicyResult\<close> has no field for the denying policy: \<^verbatim>\<open>EvaluatePolicies\<close> names it in
  the text \<^verbatim>\<open>Policy <name> denied the request\<close> of \<^verbatim>\<open>Error\<close>. \<open>deniedBy\<close> reads it back.
\<close>

definition deniedBy :: "PolicyResult \<Rightarrow> string option" where
  "deniedBy r =
     (if \<not> Allowed r \<and> take 7 (Error r) = ''Policy '' \<and> HasSuffix (Error r) '' denied the request''
      then Some (drop 7 (take (length (Error r) - 19) (Error r))) else None)"

text \<open>
  What the documentation of encoding/json says of \<^verbatim>\<open>json.Unmarshal\<close> into a
  \<^verbatim>\<open>map[string]interface{}\<close>, and no more: the document \<^verbatim>\<open>null\<close> is no error and leaves
  the nil map; a boolean, a number, a string and an array are errors. Nothing is said
  of objects, which the library may decode or refuse.
\<close>

definition json_Unmarshal_documented ::
  "(json \<Rightarrow> string + (string \<times> json) list option) \<Rightarrow> bool" where
  "json_Unmarshal_documented json_Unmarshal =
     (json_Unmarshal JNull = Inr None
      \<and> (\<forall>b. isl (json_Unmarshal (JBool b)))
      \<and> (\<forall>x. isl (json_Unmarshal (JNumber x)))
      \<and> (\<forall>s. isl (json_Unmarshal (JString s)))
      \<and> (\<forall>xs. isl (json_Unmarshal (JArray xs))))"

section \<open>Example inputs\<close>

text \<open>
  A manager with six policies: \<open>a\<close> allows, \<open>b\<close> denies, \<open>e\<close> fails in the engine, \<open>n\<close> and
  \<open>x\<close> give no result, \<open>s\<close> gives a string.
\<close>

definition demo_pm :: PolicyManager where
  "demo_pm = \<lparr>policies = [''a'' \<mapsto> (\<lambda>input. Inr [[JBool True]]), ''b'' \<mapsto> (\<lambda>input. Inr [[JBool False]]),
     ''e'' \<mapsto> (\<lambda>input. Inl ''boom''), ''n'' \<mapsto> (\<lambda>input. Inr []), ''x'' \<mapsto> (\<lambda>input. Inr [[]]),
     ''s'' \<mapsto> (\<lambda>input. Inr [[JString ''true'']])]\<rparr>"

text \<open>
  \<^verbatim>\<open>json.Marshal\<close> on the nil map \<^verbatim>\<open>map[string]interface{}(nil)\<close> held in an interface:
  the interface value is not nil, and the encoding is the text \<^verbatim>\<open>null\<close>.
\<close>

definition Marshal_nil_map :: "unit \<Rightarrow> string + json" where
  "Marshal_nil_map v = Inr JNull"

text \<open>
  A decoder for the examples. It follows the documentation on \<^verbatim>\<open>null\<close> and on the
  documents that are no object, and of the objects it decodes only those whose members
  are strings and booleans under distinct names, which decode to themselves.
\<close>

definition demo_Unmarshal_map :: "json \<Rightarrow> string + (string \<times> json) list option" where
  "demo_Unmarshal_map doc =
     (case doc of
        JNull \<Rightarrow> Inr None
      | JObject members \<Rightarrow>
          if distinct (map fst members)
             \<and> list_all (\<lambda>(k, v). case v of JString s \<Rightarrow> True | JBool b \<Rightarrow> True | _ \<Rightarrow> False)
                  members
          then Inr (Some members)
          else Inl ''object not decoded by this decoder''
      | _ \<Rightarrow> Inl ''json: cannot unmarshal into Go value of type map[string]interface {}'')"

text \<open>
  A stand-in for the JSON-Schema engine that checks \<^verbatim>\<open>required\<close> only: a document is valid
  when it is an object with every required member.
\<close>

definition demo_required :: "json \<Rightarrow> string list" where
  "demo_required schema =
     (case schema of
        JObject ms \<Rightarrow>
          (case map_of ms ''required'' of
             Some (JArray ks) \<Rightarrow> concat (map (\<lambda>k. case k of JString s \<Rightarrow> [s] | _ \<Rightarrow> []) ks)
           | _ \<Rightarrow> [])
      | _ \<Rightarrow> [])"

definition demo_Validate :: "json \<Rightarrow> json \<Rightarrow> string + gojsonschema_Result" where
  "demo_Validate schema doc =
     (case doc of
        JObject ms \<Rightarrow>
          (let missing = filter (\<lambda>k. k \<notin> set (map fst ms)) (demo_required schema)
           in Inr \<lparr>result_Valid = (missing = []),
                   result_Errors = map (\<lambda>k. ''(root): '' @ k @ '' is required'') missing\<rparr>)
      | _ \<Rightarrow> Inr \<lparr>result_Valid = False,
                   result_Errors = [''(root): Invalid type. Expected: object'']\<rparr>)"

text \<open>
  The libraries and the clock of the examples. The two response encoders write the
  members the \<^verbatim>\<open>json\<close> tags of the structs name, the timestamp as a string.
\<close>

definition demo_deps :: deps where
  "demo_deps =
     \<lparr>json_Marshal_schema = (\<lambda>s. Inr (JObject s)),
      json_Marshal_value = Inr,
      json_Marshal_StatusResponse =
        (\<lambda>r. Inr (JObject [(''status'', JString (Status r)),
                             (''timestamp'', JString ''2023-11-14T22:13:20Z''),
                             (''version'', JString (Version r)),
                             (''uptime'', JNumber (of_int (Uptime r)))])),
      json_Marshal_TrafficResponse =
        (\<lambda>r. Inr (JObject [(''id'', JString (ID r)), (''serviceId'', JString (ServiceID r)),
                             (''status'', JString (Status_T r)),
                             (''message'', JString (Message r)),
                             (''timestamp'', JString ''2023-11-14T22:13:21Z'')])),
      json_Unmarshal_map = demo_Unmarshal_map,
      gojsonschema_Validate = demo_Validate,
      json_Unmarshal_TrafficRequest = (\<lambda>doc r. r),
      time_Now = (\<lambda>k. 1700000000 + int k),
      time_Format = (\<lambda>t. ''20231114221320'')\<rparr>"

text \<open>A route manager, five routes and a POST request with a given decoded body.\<close>

definition demo_rm :: RouteManager where
  "demo_rm = \<lparr>policyManager = demo_pm\<rparr>"

definition demo_status_route :: RouteConfig where
  "demo_status_route =
     \<lparr>RouteName = ''/v1/status'', Method = ''GET'', RequestSchema = None,
      ResponseSchema = None, Policies = [''a'']\<rparr>"

definition demo_traffic_route :: RouteConfig where
  "demo_traffic_route =
     \<lparr>RouteName = ''/v1/services/:serviceId/traffic'', Method = ''POST'',
      RequestSchema = Some [(''type'', JString ''object''),
                            (''required'', JArray [JString ''trafficType''])],
      ResponseSchema = None, Policies = [''a'']\<rparr>"

definition demo_echo_route :: RouteConfig where
  "demo_echo_route =
     \<lparr>RouteName = ''/v1/echo'', Method = ''POST'', RequestSchema = None,
      ResponseSchema = None, Policies = [''a'']\<rparr>"

definition demo_put_route :: RouteConfig where
  "demo_put_route =
     \<lparr>RouteName = ''/v1/services/:serviceId/traffic'', Method = ''PUT'',
      RequestSchema = Some [(''type'', JString ''object''),
                            (''required'', JArray [JString ''trafficType''])],
      ResponseSchema = None, Policies = [''b'']\<rparr>"

definition demo_region_route :: RouteConfig where
  "demo_region_route =
     \<lparr>RouteName = ''/v1/status'', Method = ''GET'', RequestSchema = None,
      ResponseSchema = Some [(''type'', JString ''object''),
                             (''required'', JArray [JString ''region''])],
      Policies = [''a'']\<rparr>"

definition demo_request :: "json \<Rightarrow> Request" where
  "demo_request body =
     \<lparr>Header = [''Content-Type'' \<mapsto> [''application/json'']],
      URL_Path = ''/v1/services/s1/traffic'', ShouldBindJSON = Inr body\<rparr>"

text \<open>
  An engine for the examples: the table of the handlers registered so far. Like gin it
  panics when the method and path already have a handler; it takes every other path.
\<close>

definition demo_gin_Handle ::
  "(string \<times> string \<times> RouteConfig) list \<Rightarrow> string \<Rightarrow> string \<Rightarrow> RouteConfig
     \<Rightarrow> (string \<times> string \<times> RouteConfig) list option" where
  "demo_gin_Handle router method path route =
     (if (method, path) \<in> set (map (\<lambda>(m, p, r). (m, p)) router) then None
      else Some (router @ [(method, path, route)]))"

section \<open>Properties of the policy manager\<close>

lemma EvaluatePolicy_err: "snd (EvaluatePolicy pm n input) = None"
  by (simp add: EvaluatePolicy_def split: option.splits sum.splits list.splits json.splits)

lemma EvaluatePolicy_cases:
  obtains r where "EvaluatePolicy pm n input = (r, None)"
  using EvaluatePolicy_err [of pm n input] by (cases "EvaluatePolicy pm n input") simp

lemma loop_err: "snd (fst (EvaluatePolicies_loop pm names input)) = None"
  by (induction names) (auto split: prod.splits option.splits)

lemma loop_all_allow:
  "\<forall>n\<in>set names. policy_allows pm input n \<Longrightarrow>
   EvaluatePolicies_loop pm names input =
     ((\<lparr>Allowed = True, Error = ''''\<rparr>, None), map EvaluatePolicy_call names)"
proof (induction names)
  case Nil
  show ?case by simp
next
  case (Cons n ns)
  obtain r where ev: "EvaluatePolicy pm n input = (r, None)" by (rule EvaluatePolicy_cases)
  from Cons.prems ev have "Allowed r" by (simp add: policy_allows_def)
  with Cons ev show ?case by simp
qed

lemma loop_first_denial:
  "\<forall>n\<in>set pre. policy_allows pm input n \<Longrightarrow> \<not> policy_allows pm input d \<Longrightarrow>
   EvaluatePolicies_loop pm (pre @ d # post) input =
     ((\<lparr>Allowed = False, Error = ''Policy '' @ d @ '' denied the request''\<rparr>, None),
      map EvaluatePolicy_call (pre @ [d]))"
proof (induction pre)
  case Nil
  obtain r where ev: "EvaluatePolicy pm d input = (r, None)" by (rule EvaluatePolicy_cases)
  from Nil.prems ev have "\<not> Allowed r" by (simp add: policy_allows_def)
  with ev show ?case by simp
next
  case (Cons n ns)
  obtain r where ev: "EvaluatePolicy pm n input = (r, None)" by (rule EvaluatePolicy_cases)
  from Cons.prems ev have "Allowed r" by (simp add: policy_allows_def)
  with Cons ev show ?case by simp
qed

lemma EvaluatePolicies_loop_eq: "EvaluatePolicies pm names input = EvaluatePolicies_loop pm names input"
  by (cases names) (simp_all add: EvaluatePolicies_def)

lemma first_denial_split:
  assumes "\<not> (\<forall>n\<in>set names. P n)"
  shows "\<exists>pre d post. names = pre @ d # post \<and> (\<forall>n\<in>set pre. P n) \<and> \<not> P d"
proof -
  from assms have "\<exists>n\<in>set names. \<not> P n" by simp
  from split_list_first_prop [OF this]
  obtain pre d post where "names = pre @ d # post" "\<not> P d" "\<forall>y\<in>set pre. \<not> \<not> P y"
    by blast
  then show ?thesis by auto
qed

lemma deniedBy_denial: "deniedBy \<lparr>Allowed = False, Error = ''Policy '' @ d @ '' denied the request''\<rparr> = Some d"
  by (simp add: deniedBy_def HasSuffix_def)

lemma EvaluatePolicies_denied_iff:
  "Allowed (fst (fst (EvaluatePolicies pm names input))) \<longleftrightarrow> (\<forall>n\<in>set names. policy_allows pm input n)"
proof (cases "\<forall>n\<in>set names. policy_allows pm input n")
  case True
  then show ?thesis by (simp add: EvaluatePolicies_loop_eq loop_all_allow)
next
  case False
  from first_denial_split [OF False]
  obtain pre d post where "names = pre @ d # post" "\<forall>n\<in>set pre. policy_allows pm input n"
    "\<not> policy_allows pm input d" by blast
  with False show ?thesis by (simp add: EvaluatePolicies_loop_eq loop_first_denial)
qed

text \<open>
  Claim C1. \<^verbatim>\<open>EvaluatePolicies\<close> allows exactly when every named policy allows the input
  on its own. The names are evaluated in list order: when all allow, the calls are the
  whole list; when \<open>d\<close> is the first name that denies, the calls stop at \<open>d\<close>, nothing
  after it is evaluated, and the denial names \<open>d\<close>. (The law holds for the empty list
  as well.)
\<close>

theorem EvaluatePolicies_conjunction:
  "(Allowed (fst (fst (EvaluatePolicies pm names input)))
      \<longleftrightarrow> (\<forall>n\<in>set names. policy_allows pm input n))
   \<and> ((\<forall>n\<in>set names. policy_allows pm input n) \<longrightarrow>
        snd (EvaluatePolicies pm names input) = map EvaluatePolicy_call names)
   \<and> (\<forall>pre d post.
         names = pre @ d # post \<and> (\<forall>n\<in>set pre. policy_allows pm input n)
           \<and> \<not> policy_allows pm input d \<longrightarrow>
         EvaluatePolicies pm names input =
           ((\<lparr>Allowed = False, Error = ''Policy '' @ d @ '' denied the request''\<rparr>, None),
            map EvaluatePolicy_call (pre @ [d]))
         \<and> deniedBy (fst (fst (EvaluatePolicies pm names input))) = Some d)"
proof (intro conjI allI impI)
  show "Allowed (fst (fst (EvaluatePolicies pm names input)))
      \<longleftrightarrow> (\<forall>n\<in>set names. policy_allows pm input n)"
    by (rule EvaluatePolicies_denied_iff)
next
  assume "\<forall>n\<in>set names. policy_allows pm input n"
  then show "snd (EvaluatePolicies pm names input) = map EvaluatePolicy_call names"
    by (simp add: EvaluatePolicies_loop_eq loop_all_allow)
next
  fix pre d post
  assume h: "names = pre @ d # post \<and> (\<forall>n\<in>set pre. policy_allows pm input n)
           \<and> \<not> policy_allows pm input d"
  then show eq: "EvaluatePolicies pm names input =
           ((\<lparr>Allowed = False, Error = ''Policy '' @ d @ '' denied the request''\<rparr>, None),
            map EvaluatePolicy_call (pre @ [d]))"
    by (simp add: EvaluatePolicies_loop_eq loop_first_denial)
  show "deniedBy (fst (fst (EvaluatePolicies pm names input))) = Some d"
    by (simp only: eq fst_conv deniedBy_denial)
qed

lemma demo_allows:
  "policy_allows demo_pm Map.empty ''a''" "\<not> policy_allows demo_pm Map.empty ''b''"
  by (simp_all add: policy_allows_def EvaluatePolicy_def demo_pm_def)

theorem EvaluatePolicies_conjunction_witness:
  "policy_allows demo_pm Map.empty ''a'' \<and> \<not> policy_allows demo_pm Map.empty ''b''
   \<and> EvaluatePolicies demo_pm [''a'', ''b'', ''a''] Map.empty =
       ((\<lparr>Allowed = False, Error = ''Policy b denied the request''\<rparr>, None),
        [EvaluatePolicy_call ''a'', EvaluatePolicy_call ''b''])
   \<and> deniedBy (fst (fst (EvaluatePolicies demo_pm [''a'', ''b'', ''a''] Map.empty))) = Some ''b''
   \<and> Allowed (fst (fst (EvaluatePolicies demo_pm [''a'', ''a''] Map.empty)))
   \<and> snd (EvaluatePolicies demo_pm [''a'', ''a''] Map.empty)
       = [EvaluatePolicy_call ''a'', EvaluatePolicy_call ''a'']"
proof -
  note a = demo_allows
  from EvaluatePolicies_conjunction [of demo_pm "[''a'', ''b'', ''a'']" Map.empty]
  have "[''a'', ''b'', ''a''] = [''a''] @ ''b'' # [''a'']
          \<and> (\<forall>n\<in>set [''a'']. policy_allows demo_pm Map.empty n)
          \<and> \<not> policy_allows demo_pm Map.empty ''b'' \<longrightarrow>
        EvaluatePolicies demo_pm [''a'', ''b'', ''a''] Map.empty =
          ((\<lparr>Allowed = False, Error = ''Policy '' @ ''b'' @ '' denied the request''\<rparr>, None),
           map EvaluatePolicy_call ([''a''] @ [''b'']))
        \<and> deniedBy (fst (fst (EvaluatePolicies demo_pm [''a'', ''b'', ''a''] Map.empty)))
            = Some ''b''"
    by blast
  with a have 1: "EvaluatePolicies demo_pm [''a'', ''b'', ''a''] Map.empty =
          ((\<lparr>Allowed = False, Error = ''Policy b denied the request''\<rparr>, None),
           [EvaluatePolicy_call ''a'', EvaluatePolicy_call ''b''])"
    and 2: "deniedBy (fst (fst (EvaluatePolicies demo_pm [''a'', ''b'', ''a''] Map.empty)))
            = Some ''b''"
    by (simp_all add: deniedBy_def HasSuffix_def)
  from EvaluatePolicies_conjunction [of demo_pm "[''a'', ''a'']" Map.empty] a
  have 3: "Allowed (fst (fst (EvaluatePolicies demo_pm [''a'', ''a''] Map.empty)))"
    and 4: "snd (EvaluatePolicies demo_pm [''a'', ''a''] Map.empty)
            = [EvaluatePolicy_call ''a'', EvaluatePolicy_call ''a'']"
    by simp_all
  from a 1 2 3 4 show ?thesis by simp
qed

lemma EvaluatePolicies_cases:
  obtains r calls where "EvaluatePolicies pm names input = ((r, None), calls)"
proof -
  have "snd (fst (EvaluatePolicies pm names input)) = None"
    by (simp add: EvaluatePolicies_loop_eq loop_err)
  then show ?thesis
    by (cases "EvaluatePolicies pm names input") (auto intro: that)
qed

text \<open>
  Claim C2. A name list that holds a name the manager has no policy for is denied,
  whatever the input and the other names; and \<^verbatim>\<open>EvaluatePolicy\<close> on such a name answers
  \<^verbatim>\<open>Allowed: false\<close> with the error \<^verbatim>\<open>Policy <name> not found\<close>.
\<close>

theorem unknown_policy_denied:
  assumes "n \<in> set names" and "policies pm n = None"
  shows "\<not> Allowed (fst (fst (EvaluatePolicies pm names input)))
         \<and> EvaluatePolicy pm n input =
             (\<lparr>Allowed = False, Error = ''Policy '' @ n @ '' not found''\<rparr>, None)"
proof
  from assms(2) show single: "EvaluatePolicy pm n input =
             (\<lparr>Allowed = False, Error = ''Policy '' @ n @ '' not found''\<rparr>, None)"
    by (simp add: EvaluatePolicy_def)
  then have "\<not> policy_allows pm input n" by (simp add: policy_allows_def)
  with assms(1) have "\<not> (\<forall>k\<in>set names. policy_allows pm input k)" by blast
  then show "\<not> Allowed (fst (fst (EvaluatePolicies pm names input)))"
    by (simp only: EvaluatePolicies_denied_iff not_False_eq_True)
qed

theorem unknown_policy_denied_witness:
  "''zz'' \<in> set [''a'', ''zz'', ''a''] \<and> policies demo_pm ''zz'' = None
   \<and> \<not> Allowed (fst (fst (EvaluatePolicies demo_pm [''a'', ''zz'', ''a''] Map.empty)))
   \<and> EvaluatePolicy demo_pm ''zz'' Map.empty =
        (\<lparr>Allowed = False, Error = ''Policy zz not found''\<rparr>, None)"
proof -
  have h1: "''zz'' \<in> set [''a'', ''zz'', ''a'']" by simp
  have h2: "policies demo_pm ''zz'' = None" by (simp add: demo_pm_def)
  from unknown_policy_denied [OF h1 h2, of Map.empty] h1 h2 show ?thesis by simp
qed

text \<open>
  Claim C6. For a registered policy, an engine error, an empty result set, a first result
  without expressions, and a first value that is not a boolean each give
  \<^verbatim>\<open>Allowed: false\<close> with a diagnostic; \<^verbatim>\<open>Allowed: true\<close> is answered only when the first
  value of the first result is the boolean true.
\<close>

theorem EvaluatePolicy_fail_closed:
  assumes "policies pm name = Some q"
  shows "(\<forall>err. q input = Inl err \<longrightarrow>
            EvaluatePolicy pm name input =
              (\<lparr>Allowed = False, Error = ''Policy evaluation error: '' @ err\<rparr>, None))
         \<and> (q input = Inr [] \<or> (\<exists>rest. q input = Inr ([] # rest)) \<longrightarrow>
              EvaluatePolicy pm name input =
                (\<lparr>Allowed = False, Error = ''No policy result found''\<rparr>, None))
         \<and> (\<forall>v vs rest. q input = Inr ((v # vs) # rest) \<and> (\<forall>b. v \<noteq> JBool b) \<longrightarrow>
              EvaluatePolicy pm name input =
                (\<lparr>Allowed = False, Error = ''Policy result is not a boolean''\<rparr>, None))
         \<and> (Allowed (fst (EvaluatePolicy pm name input)) \<longrightarrow>
              (\<exists>vs rest. q input = Inr ((JBool True # vs) # rest)))"
  using assms
  by (auto simp add: EvaluatePolicy_def split: sum.splits list.splits json.splits)

theorem EvaluatePolicy_fail_closed_witness:
  "EvaluatePolicy demo_pm ''e'' Map.empty =
     (\<lparr>Allowed = False, Error = ''Policy evaluation error: boom''\<rparr>, None)
   \<and> EvaluatePolicy demo_pm ''n'' Map.empty =
     (\<lparr>Allowed = False, Error = ''No policy result found''\<rparr>, None)
   \<and> EvaluatePolicy demo_pm ''x'' Map.empty =
     (\<lparr>Allowed = False, Error = ''No policy result found''\<rparr>, None)
   \<and> EvaluatePolicy demo_pm ''s'' Map.empty =
     (\<lparr>Allowed = False, Error = ''Policy result is not a boolean''\<rparr>, None)"
proof -
  have e: "policies demo_pm ''e'' = Some (\<lambda>input. Inl ''boom'')"
    and n: "policies demo_pm ''n'' = Some (\<lambda>input. Inr [])"
    and x: "policies demo_pm ''x'' = Some (\<lambda>input. Inr [[]])"
    and s: "policies demo_pm ''s'' = Some (\<lambda>input. Inr [[JString ''true'']])"
    by (simp_all add: demo_pm_def)
  from EvaluatePolicy_fail_closed [OF e, of Map.empty]
  have 1: "EvaluatePolicy demo_pm ''e'' Map.empty =
     (\<lparr>Allowed = False, Error = ''Policy evaluation error: boom''\<rparr>, None)" by simp
  from EvaluatePolicy_fail_closed [OF n, of Map.empty]
  have 2: "EvaluatePolicy demo_pm ''n'' Map.empty =
     (\<lparr>Allowed = False, Error = ''No policy result found''\<rparr>, None)" by simp
  from EvaluatePolicy_fail_closed [OF x, of Map.empty]
  have 3: "EvaluatePolicy demo_pm ''x'' Map.empty =
     (\<lparr>Allowed = False, Error = ''No policy result found''\<rparr>, None)" by simp
  from EvaluatePolicy_fail_closed [OF s, of Map.empty]
  have 4: "EvaluatePolicy demo_pm ''s'' Map.empty =
     (\<lparr>Allowed = False, Error = ''Policy result is not a boolean''\<rparr>, None)" by simp
  from 1 2 3 4 show ?thesis by simp
qed

section \<open>Properties of the schema validator\<close>

lemma handlePOST_valid_code:
  assumes "ShouldBindJSON c = Inr requestBody"
      and "Valid (ValidateRequest (json_Marshal_schema d) (json_Marshal_value d)
              (gojsonschema_Validate d) (RequestSchema route) requestBody)"
  shows "code (fst (handlePOST rm d route headers c)) = 200
         \<or> code (fst (handlePOST rm d route headers c)) = 403"
proof -
  obtain r calls where
    "EvaluatePolicies (policyManager rm) (Policies route)
       (CreatePolicyInput (json_Marshal_value d) (json_Unmarshal_map d) ''POST'' (RouteName route) headers
          (if requestBody = JNull then None else Some requestBody)) = ((r, None), calls)"
    by (rule EvaluatePolicies_cases)
  with assms show ?thesis by (simp add: handlePOST_def Let_def)
qed

text \<open>
  Claim C5. With the nil schema or the empty schema, \<^verbatim>\<open>ValidateRequest\<close> (and
  \<^verbatim>\<open>ValidateResponse\<close>) answers \<^verbatim>\<open>Valid: true\<close> for every value, whatever the encoders and
  the schema engine would do: none of them is consulted. So a POST route with such a
  request schema never answers 400 to a body that could be decoded.
\<close>

theorem ValidateRequest_empty_schema:
  "ValidateRequest marshal_schema marshal_data Validate None data
     = \<lparr>Valid = True, Errors = [], Details = ''''\<rparr>
   \<and> ValidateRequest marshal_schema marshal_data Validate (Some []) data
     = \<lparr>Valid = True, Errors = [], Details = ''''\<rparr>
   \<and> ValidateResponse marshal_schema marshal_data Validate None data
     = \<lparr>Valid = True, Errors = [], Details = ''''\<rparr>
   \<and> ValidateResponse marshal_schema marshal_data Validate (Some []) data
     = \<lparr>Valid = True, Errors = [], Details = ''''\<rparr>
   \<and> (ShouldBindJSON c = Inr requestBody \<longrightarrow>
        code (fst (handlePOST rm d (route\<lparr>RequestSchema := None\<rparr>) headers c)) \<noteq> 400
        \<and> code (fst (handlePOST rm d (route\<lparr>RequestSchema := Some []\<rparr>) headers c)) \<noteq> 400)"
proof -
  have nil_schema: "ValidateRequest ms md V None x = \<lparr>Valid = True, Errors = [], Details = ''''\<rparr>"
    for ms :: "schema_map \<Rightarrow> string + json" and md :: "'x \<Rightarrow> string + json" and V x
    by (simp add: ValidateRequest_def)
  have empty_schema:
    "ValidateRequest ms md V (Some []) x = \<lparr>Valid = True, Errors = [], Details = ''''\<rparr>"
    for ms :: "schema_map \<Rightarrow> string + json" and md :: "'x \<Rightarrow> string + json" and V x
    by (simp add: ValidateRequest_def)
  have post: "code (fst (handlePOST rm d (route\<lparr>RequestSchema := sch\<rparr>) headers c)) \<noteq> 400"
    if b: "ShouldBindJSON c = Inr requestBody" and sch: "sch = None \<or> sch = Some []" for sch
  proof -
    from sch have "Valid (ValidateRequest (json_Marshal_schema d) (json_Marshal_value d)
              (gojsonschema_Validate d) (RequestSchema (route\<lparr>RequestSchema := sch\<rparr>))
              requestBody)"
      by (auto simp add: nil_schema empty_schema)
    from handlePOST_valid_code [OF b this, of rm headers] show ?thesis by auto
  qed
  show ?thesis
    by (simp add: nil_schema empty_schema ValidateResponse_def post)
qed

theorem ValidateRequest_empty_schema_witness:
  "ValidateRequest (\<lambda>s. Inl ''unsupported type'') (\<lambda>v. Inl ''unsupported type'')
     (\<lambda>s v. Inl ''no schema'') None (JString ''anything'')
     = \<lparr>Valid = True, Errors = [], Details = ''''\<rparr>
   \<and> ValidateRequest (\<lambda>s. Inl ''unsupported type'') (\<lambda>v. Inl ''unsupported type'')
     (\<lambda>s v. Inl ''no schema'') (Some []) (JString ''anything'')
     = \<lparr>Valid = True, Errors = [], Details = ''''\<rparr>
   \<and> ShouldBindJSON (demo_request (JString ''anything'')) = Inr (JString ''anything'')
   \<and> code (fst (handlePOST demo_rm demo_deps (demo_traffic_route\<lparr>RequestSchema := None\<rparr>)
                   Map.empty (demo_request (JString ''anything'')))) \<noteq> 400
   \<and> code (fst (handlePOST demo_rm demo_deps (demo_traffic_route\<lparr>RequestSchema := Some []\<rparr>)
                   Map.empty (demo_request (JString ''anything'')))) \<noteq> 400"
proof -
  have b: "ShouldBindJSON (demo_request (JString ''anything'')) = Inr (JString ''anything'')"
    by (simp add: demo_request_def)
  from ValidateRequest_empty_schema
         [of "\<lambda>s. Inl ''unsupported type''" "\<lambda>v. Inl ''unsupported type''"
             "\<lambda>s v. Inl ''no schema''" "JString ''anything''"
             "demo_request (JString ''anything'')" "JString ''anything''"
             demo_rm demo_deps demo_traffic_route Map.empty] b
  show ?thesis by simp
qed

section \<open>Properties of the policy input\<close>

lemma demo_Unmarshal_documented: "json_Unmarshal_documented demo_Unmarshal_map"
  by (simp add: json_Unmarshal_documented_def demo_Unmarshal_map_def)

lemma CreatePolicyInput_shape:
  "CreatePolicyInput json_Marshal json_Unmarshal method path headers body
     = [''method'' \<mapsto> InString method, ''path'' \<mapsto> InString path,
        ''headers'' \<mapsto> InHeaders headers]
   \<or> (\<exists>m. CreatePolicyInput json_Marshal json_Unmarshal method path headers body
          = [''method'' \<mapsto> InString method, ''path'' \<mapsto> InString path,
             ''headers'' \<mapsto> InHeaders headers, ''body'' \<mapsto> InBody m])"
proof (cases body)
  case None
  then show ?thesis by (simp add: CreatePolicyInput_def)
next
  case (Some b)
  show ?thesis
  proof (cases "json_Marshal b")
    case (Inl e)
    with Some show ?thesis by (simp add: CreatePolicyInput_def)
  next
    case (Inr doc)
    show ?thesis
    proof (cases "json_Unmarshal doc")
      case (Inl e)
      with Some Inr show ?thesis by (simp add: CreatePolicyInput_def)
    next
      case m: (Inr m)
      with Some Inr have "CreatePolicyInput json_Marshal json_Unmarshal method path headers body
          = [''method'' \<mapsto> InString method, ''path'' \<mapsto> InString path,
             ''headers'' \<mapsto> InHeaders headers, ''body'' \<mapsto> InBody m]"
        by (simp add: CreatePolicyInput_def)
      then show ?thesis by blast
    qed
  qed
qed

lemma CreatePolicyInput_dom:
  "dom (CreatePolicyInput json_Marshal json_Unmarshal method path headers body) - {''body''}
     = {''method'', ''path'', ''headers''}"
  using CreatePolicyInput_shape [of json_Marshal json_Unmarshal "method" "path" headers body]
  by (elim disjE exE) (simp_all, auto)

text \<open>
  Claim C10 as stated fails. The nil map is a non-nil body that is serializable, its
  encoding \<^verbatim>\<open>null\<close> is not a JSON object, and \<^verbatim>\<open>json.Unmarshal\<close> of \<^verbatim>\<open>null\<close> into the map
  is no error: the input has the key \<^verbatim>\<open>body\<close>, bound to the nil map.
\<close>

theorem CreatePolicyInput_null_body_counterexample:
  "CreatePolicyInput Marshal_nil_map demo_Unmarshal_map ''POST'' ''/x'' Map.empty (Some ())
     ''body'' = Some (InBody None)
   \<and> ''body'' \<in> dom (CreatePolicyInput Marshal_nil_map demo_Unmarshal_map ''POST'' ''/x''
                        Map.empty (Some ()))
   \<and> Marshal_nil_map () = Inr JNull
   \<and> demo_Unmarshal_map JNull = Inr None
   \<and> (\<forall>members. Marshal_nil_map () \<noteq> Inr (JObject members))"
  by (simp add: CreatePolicyInput_def Marshal_nil_map_def demo_Unmarshal_map_def)

text \<open>
  Claim C10, amended. The input always binds \<^verbatim>\<open>method\<close>, \<^verbatim>\<open>path\<close> and \<^verbatim>\<open>headers\<close> to
  the arguments, and has no other key than these and \<^verbatim>\<open>body\<close>. It has the key \<^verbatim>\<open>body\<close>
  exactly when the body is not nil, is serializable, and \<^verbatim>\<open>json.Unmarshal\<close> of its
  encoding into the map returns no error; the key is then bound to the map that call
  left. With the library as documented this is so for the encoding \<^verbatim>\<open>null\<close> (the nil
  map) besides the objects the library decodes, and never for an array, a string, a
  number or a boolean.
\<close>

theorem CreatePolicyInput_keys:
  "CreatePolicyInput json_Marshal json_Unmarshal method path headers body ''method''
     = Some (InString method)
   \<and> CreatePolicyInput json_Marshal json_Unmarshal method path headers body ''path''
       = Some (InString path)
   \<and> CreatePolicyInput json_Marshal json_Unmarshal method path headers body ''headers''
       = Some (InHeaders headers)
   \<and> dom (CreatePolicyInput json_Marshal json_Unmarshal method path headers body) - {''body''}
       = {''method'', ''path'', ''headers''}
   \<and> (''body'' \<in> dom (CreatePolicyInput json_Marshal json_Unmarshal method path headers body)
        \<longleftrightarrow> (\<exists>b bodyBytes bodyMap. body = Some b \<and> json_Marshal b = Inr bodyBytes
                \<and> json_Unmarshal bodyBytes = Inr bodyMap))
   \<and> (\<forall>b bodyBytes bodyMap. body = Some b \<and> json_Marshal b = Inr bodyBytes
          \<and> json_Unmarshal bodyBytes = Inr bodyMap \<longrightarrow>
        CreatePolicyInput json_Marshal json_Unmarshal method path headers body ''body''
          = Some (InBody bodyMap))
   \<and> (json_Unmarshal_documented json_Unmarshal \<longrightarrow>
        (\<forall>b. body = Some b \<and> json_Marshal b = Inr JNull \<longrightarrow>
           CreatePolicyInput json_Marshal json_Unmarshal method path headers body ''body''
             = Some (InBody None))
        \<and> (\<forall>b doc. body = Some b \<and> json_Marshal b = Inr doc
              \<and> ((\<exists>xs. doc = JArray xs) \<or> (\<exists>s. doc = JString s) \<or> (\<exists>x. doc = JNumber x)
                   \<or> (\<exists>t. doc = JBool t)) \<longrightarrow>
             ''body'' \<notin> dom (CreatePolicyInput json_Marshal json_Unmarshal method path headers
                                body))
        \<and> (''body'' \<in> dom (CreatePolicyInput json_Marshal json_Unmarshal method path headers
                               body) \<longrightarrow>
             (\<exists>b doc. body = Some b \<and> json_Marshal b = Inr doc
                \<and> (doc = JNull \<or> (\<exists>members. doc = JObject members)))))"
proof -
  let ?input = "CreatePolicyInput json_Marshal json_Unmarshal method path headers body"
  have fixed: "?input ''method'' = Some (InString method)"
    "?input ''path'' = Some (InString path)" "?input ''headers'' = Some (InHeaders headers)"
    by (simp_all add: CreatePolicyInput_def Let_def split: option.splits sum.splits)
  have keys: "dom ?input - {''body''} = {''method'', ''path'', ''headers''}"
    by (rule CreatePolicyInput_dom)
  have bound: "?input ''body'' = Some (InBody bodyMap)"
    if "body = Some b" "json_Marshal b = Inr bodyBytes" "json_Unmarshal bodyBytes = Inr bodyMap"
    for b bodyBytes bodyMap
    using that by (simp add: CreatePolicyInput_def)
  have present: "''body'' \<in> dom ?input
        \<longleftrightarrow> (\<exists>b bodyBytes bodyMap. body = Some b \<and> json_Marshal b = Inr bodyBytes
                \<and> json_Unmarshal bodyBytes = Inr bodyMap)"
    by (auto simp add: CreatePolicyInput_def Let_def split: option.splits sum.splits)
  have doc_null: "?input ''body'' = Some (InBody None)"
    if "json_Unmarshal_documented json_Unmarshal" "body = Some b" "json_Marshal b = Inr JNull"
    for b
  proof -
    from that(1) have "json_Unmarshal JNull = Inr None"
      by (simp add: json_Unmarshal_documented_def)
    with that(2,3) show ?thesis by (simp add: CreatePolicyInput_def)
  qed
  have doc_other: "''body'' \<notin> dom ?input"
    if d: "json_Unmarshal_documented json_Unmarshal" and b: "body = Some b"
      and m: "json_Marshal b = Inr doc"
      and k: "(\<exists>xs. doc = JArray xs) \<or> (\<exists>s. doc = JString s) \<or> (\<exists>x. doc = JNumber x)
                   \<or> (\<exists>t. doc = JBool t)"
    for b doc
  proof -
    from d k have "isl (json_Unmarshal doc)"
      by (auto simp add: json_Unmarshal_documented_def)
    then obtain e where "json_Unmarshal doc = Inl e" by (cases "json_Unmarshal doc") auto
    with b m show ?thesis by (simp add: CreatePolicyInput_def)
  qed
  have doc_shape: "\<exists>b doc. body = Some b \<and> json_Marshal b = Inr doc
                \<and> (doc = JNull \<or> (\<exists>members. doc = JObject members))"
    if d: "json_Unmarshal_documented json_Unmarshal" and p: "''body'' \<in> dom ?input"
  proof -
    from p present obtain b doc bodyMap where b: "body = Some b" and m: "json_Marshal b = Inr doc"
      and u: "json_Unmarshal doc = Inr bodyMap" by blast
    have "isl (json_Unmarshal doc)"
      if "(\<exists>xs. doc = JArray xs) \<or> (\<exists>s. doc = JString s) \<or> (\<exists>x. doc = JNumber x)
            \<or> (\<exists>t. doc = JBool t)"
      using d that by (auto simp add: json_Unmarshal_documented_def)
    with u have "\<not> ((\<exists>xs. doc = JArray xs) \<or> (\<exists>s. doc = JString s) \<or> (\<exists>x. doc = JNumber x)
            \<or> (\<exists>t. doc = JBool t))"
      by auto
    then have "doc = JNull \<or> (\<exists>members. doc = JObject members)"
      by (cases doc) simp_all
    with b m show ?thesis by blast
  qed
  have given: "\<forall>b bodyBytes bodyMap. body = Some b \<and> json_Marshal b = Inr bodyBytes
          \<and> json_Unmarshal bodyBytes = Inr bodyMap \<longrightarrow>
        ?input ''body'' = Some (InBody bodyMap)"
    using bound by blast
  have documented: "json_Unmarshal_documented json_Unmarshal \<longrightarrow>
        (\<forall>b. body = Some b \<and> json_Marshal b = Inr JNull \<longrightarrow>
           ?input ''body'' = Some (InBody None))
        \<and> (\<forall>b doc. body = Some b \<and> json_Marshal b = Inr doc
              \<and> ((\<exists>xs. doc = JArray xs) \<or> (\<exists>s. doc = JString s) \<or> (\<exists>x. doc = JNumber x)
                   \<or> (\<exists>t. doc = JBool t)) \<longrightarrow>
             ''body'' \<notin> dom ?input)
        \<and> (''body'' \<in> dom ?input \<longrightarrow>
             (\<exists>b doc. body = Some b \<and> json_Marshal b = Inr doc
                \<and> (doc = JNull \<or> (\<exists>members. doc = JObject members))))"
    using doc_null doc_other doc_shape by blast
  show ?thesis
    by (intro conjI) (rule fixed keys present given documented)+

qed

theorem CreatePolicyInput_keys_witness:
  "json_Unmarshal_documented demo_Unmarshal_map
   \<and> CreatePolicyInput Inr demo_Unmarshal_map ''POST'' ''/x'' Map.empty
        (Some (JObject [(''k'', JBool True)])) ''body''
       = Some (InBody (Some [(''k'', JBool True)]))
   \<and> ''body'' \<notin> dom (CreatePolicyInput Inr demo_Unmarshal_map ''POST'' ''/x'' Map.empty
                        (Some (JArray [])))
   \<and> CreatePolicyInput Marshal_nil_map demo_Unmarshal_map ''POST'' ''/x'' Map.empty (Some ())
        ''body'' = Some (InBody None)
   \<and> CreatePolicyInput Inr demo_Unmarshal_map ''POST'' ''/x'' Map.empty (Some (JArray []))
        ''method'' = Some (InString ''POST'')"
proof -
  note doc = demo_Unmarshal_documented
  have u: "demo_Unmarshal_map (JObject [(''k'', JBool True)]) = Inr (Some [(''k'', JBool True)])"
    by (simp add: demo_Unmarshal_map_def)
  from CreatePolicyInput_keys [of Inr demo_Unmarshal_map "''POST''" "''/x''" Map.empty
         "Some (JObject [(''k'', JBool True)])"] u
  have 1: "CreatePolicyInput Inr demo_Unmarshal_map ''POST'' ''/x'' Map.empty
             (Some (JObject [(''k'', JBool True)])) ''body''
           = Some (InBody (Some [(''k'', JBool True)]))"
    by simp
  from CreatePolicyInput_keys [of Inr demo_Unmarshal_map "''POST''" "''/x''" Map.empty
         "Some (JArray [])"] doc
  have 2: "''body'' \<notin> dom (CreatePolicyInput Inr demo_Unmarshal_map ''POST'' ''/x'' Map.empty
                        (Some (JArray [])))"
    and 4: "CreatePolicyInput Inr demo_Unmarshal_map ''POST'' ''/x'' Map.empty
              (Some (JArray [])) ''method'' = Some (InString ''POST'')"
    by (simp_all add: demo_Unmarshal_map_def)
  from CreatePolicyInput_keys [of Marshal_nil_map demo_Unmarshal_map "''POST''" "''/x''"
         Map.empty "Some ()"] doc
  have 3: "CreatePolicyInput Marshal_nil_map demo_Unmarshal_map ''POST'' ''/x'' Map.empty
             (Some ()) ''body'' = Some (InBody None)"
    by (simp add: Marshal_nil_map_def)
  from doc 1 2 3 4 show ?thesis by simp
qed

section \<open>Properties of the request handlers\<close>

lemma createHandler_POST:
  "Method route = ''POST'' \<Longrightarrow>
   createHandler rm d route c =
     handlePOST rm d route
       (\<lambda>key. case Header c key of None \<Rightarrow> None
              | Some values \<Rightarrow> (if length values > 0 then Some (hd values) else None)) c"
  by (simp add: createHandler_def)

lemma handlePOST_invalid:
  "ShouldBindJSON c = Inr requestBody \<Longrightarrow>
   \<not> Valid (ValidateRequest (json_Marshal_schema d) (json_Marshal_value d)
              (gojsonschema_Validate d) (RequestSchema route) requestBody) \<Longrightarrow>
   handlePOST rm d route headers c =
     (\<lparr>code = 400,
       obj = H [(''error'', JString ''Request validation failed''),
                (''details'',
                 JString (FormatValidationErrors
                   (Errors (ValidateRequest (json_Marshal_schema d) (json_Marshal_value d)
                      (gojsonschema_Validate d) (RequestSchema route) requestBody))))]\<rparr>,
      [ValidateRequest_call])"
  by (simp add: handlePOST_def Let_def)

lemma handlePOST_bind_error:
  "ShouldBindJSON c = Inl err \<Longrightarrow>
   handlePOST rm d route headers c =
     (\<lparr>code = 400, obj = H [(''error'', JString (''Invalid JSON: '' @ err))]\<rparr>, [])"
  by (simp add: handlePOST_def)

lemma handlePOST_valid_trace:
  assumes "ShouldBindJSON c = Inr requestBody"
      and "Valid (ValidateRequest (json_Marshal_schema d) (json_Marshal_value d)
              (gojsonschema_Validate d) (RequestSchema route) requestBody)"
  shows "\<exists>rest. snd (handlePOST rm d route headers c) = ValidateRequest_call # rest"
proof -
  obtain r calls where
    "EvaluatePolicies (policyManager rm) (Policies route)
       (CreatePolicyInput (json_Marshal_value d) (json_Unmarshal_map d) ''POST'' (RouteName route) headers
          (if requestBody = JNull then None else Some requestBody)) = ((r, None), calls)"
    by (rule EvaluatePolicies_cases)
  with assms show ?thesis by (simp add: handlePOST_def Let_def)
qed

text \<open>
  Claim C3. A POST request whose decoded body fails validation against the route's
  request schema is answered 400 \<^verbatim>\<open>Request validation failed\<close> after the one call of
  \<^verbatim>\<open>ValidateRequest\<close>, with no policy evaluated. Whenever a policy is evaluated, the body
  was decoded, it passed validation, and \<^verbatim>\<open>ValidateRequest\<close> was the first call made.
\<close>

theorem request_validation_precedes_policy:
  assumes "Method route = ''POST''"
  shows "(\<forall>requestBody.
            ShouldBindJSON c = Inr requestBody
            \<and> \<not> Valid (ValidateRequest (json_Marshal_schema d) (json_Marshal_value d)
                        (gojsonschema_Validate d) (RequestSchema route) requestBody) \<longrightarrow>
            createHandler rm d route c =
              (\<lparr>code = 400,
                obj = H [(''error'', JString ''Request validation failed''),
                         (''details'',
                          JString (FormatValidationErrors
                            (Errors (ValidateRequest (json_Marshal_schema d)
                               (json_Marshal_value d) (gojsonschema_Validate d)
                               (RequestSchema route) requestBody))))]\<rparr>,
               [ValidateRequest_call]))
         \<and> (\<forall>n. EvaluatePolicy_call n \<in> set (snd (createHandler rm d route c)) \<longrightarrow>
               (\<exists>requestBody rest.
                  ShouldBindJSON c = Inr requestBody
                  \<and> Valid (ValidateRequest (json_Marshal_schema d) (json_Marshal_value d)
                            (gojsonschema_Validate d) (RequestSchema route) requestBody)
                  \<and> snd (createHandler rm d route c) = ValidateRequest_call # rest))"
proof (intro conjI allI impI)
  fix requestBody
  assume "ShouldBindJSON c = Inr requestBody
            \<and> \<not> Valid (ValidateRequest (json_Marshal_schema d) (json_Marshal_value d)
                        (gojsonschema_Validate d) (RequestSchema route) requestBody)"
  then show "createHandler rm d route c =
              (\<lparr>code = 400,
                obj = H [(''error'', JString ''Request validation failed''),
                         (''details'',
                          JString (FormatValidationErrors
                            (Errors (ValidateRequest (json_Marshal_schema d)
                               (json_Marshal_value d) (gojsonschema_Validate d)
                               (RequestSchema route) requestBody))))]\<rparr>,
               [ValidateRequest_call])"
    by (simp add: createHandler_POST [OF assms] handlePOST_invalid)
next
  fix n
  assume ev: "EvaluatePolicy_call n \<in> set (snd (createHandler rm d route c))"
  show "\<exists>requestBody rest.
                  ShouldBindJSON c = Inr requestBody
                  \<and> Valid (ValidateRequest (json_Marshal_schema d) (json_Marshal_value d)
                            (gojsonschema_Validate d) (RequestSchema route) requestBody)
                  \<and> snd (createHandler rm d route c) = ValidateRequest_call # rest"
  proof (cases "ShouldBindJSON c")
    case (Inl err)
    with ev show ?thesis
      by (simp add: createHandler_POST [OF assms] handlePOST_bind_error)
  next
    case (Inr requestBody)
    show ?thesis
    proof (cases "Valid (ValidateRequest (json_Marshal_schema d) (json_Marshal_value d)
                            (gojsonschema_Validate d) (RequestSchema route) requestBody)")
      case False
      with Inr ev show ?thesis
        by (simp add: createHandler_POST [OF assms] handlePOST_invalid)
    next
      case True
      from handlePOST_valid_trace [OF Inr True]
      obtain rest where "snd (createHandler rm d route c) = ValidateRequest_call # rest"
        unfolding createHandler_POST [OF assms] by blast
      with Inr True show ?thesis by blast
    qed
  qed
qed

lemma demo_bad_invalid:
  "\<not> Valid (ValidateRequest (json_Marshal_schema demo_deps) (json_Marshal_value demo_deps)
     (gojsonschema_Validate demo_deps) (RequestSchema demo_traffic_route)
     (JObject [(''volume'', JNumber 1)]))"
  by (simp add: ValidateRequest_def demo_deps_def demo_traffic_route_def demo_Validate_def
      demo_required_def)

lemma demo_bad_errors:
  "Errors (ValidateRequest (json_Marshal_schema demo_deps) (json_Marshal_value demo_deps)
     (gojsonschema_Validate demo_deps) (RequestSchema demo_traffic_route)
     (JObject [(''volume'', JNumber 1)])) = [''(root): trafficType is required'']"
  by (simp add: ValidateRequest_def demo_deps_def demo_traffic_route_def demo_Validate_def
      demo_required_def)

lemma demo_format: "FormatValidationErrors [''(root): trafficType is required''] = ''trafficType is required''"
  by (simp add: FormatValidationErrors_def TrimPrefix_def)

theorem request_validation_precedes_policy_witness:
  "Method demo_traffic_route = ''POST''
   \<and> ShouldBindJSON (demo_request (JObject [(''volume'', JNumber 1)]))
       = Inr (JObject [(''volume'', JNumber 1)])
   \<and> \<not> Valid (ValidateRequest (json_Marshal_schema demo_deps) (json_Marshal_value demo_deps)
               (gojsonschema_Validate demo_deps) (RequestSchema demo_traffic_route)
               (JObject [(''volume'', JNumber 1)]))
   \<and> createHandler demo_rm demo_deps demo_traffic_route
        (demo_request (JObject [(''volume'', JNumber 1)]))
       = (\<lparr>code = 400,
           obj = H [(''error'', JString ''Request validation failed''),
                    (''details'', JString ''trafficType is required'')]\<rparr>,
          [ValidateRequest_call])"
proof -
  have m: "Method demo_traffic_route = ''POST''" by (simp add: demo_traffic_route_def)
  have b: "ShouldBindJSON (demo_request (JObject [(''volume'', JNumber 1)]))
       = Inr (JObject [(''volume'', JNumber 1)])" by (simp add: demo_request_def)
  note v = demo_bad_invalid
  from request_validation_precedes_policy [OF m, of "demo_request (JObject [(''volume'', JNumber 1)])" demo_deps demo_rm]
  have "ShouldBindJSON (demo_request (JObject [(''volume'', JNumber 1)])) = Inr (JObject [(''volume'', JNumber 1)])
      \<and> \<not> Valid (ValidateRequest (json_Marshal_schema demo_deps) (json_Marshal_value demo_deps)
               (gojsonschema_Validate demo_deps) (RequestSchema demo_traffic_route)
               (JObject [(''volume'', JNumber 1)])) \<longrightarrow>
     createHandler demo_rm demo_deps demo_traffic_route
        (demo_request (JObject [(''volume'', JNumber 1)]))
       = (\<lparr>code = 400,
           obj = H [(''error'', JString ''Request validation failed''),
                    (''details'', JString (FormatValidationErrors
                            (Errors (ValidateRequest (json_Marshal_schema demo_deps)
                               (json_Marshal_value demo_deps) (gojsonschema_Validate demo_deps)
                               (RequestSchema demo_traffic_route) (JObject [(''volume'', JNumber 1)])))))]\<rparr>,
          [ValidateRequest_call])"
    by blast
  with b v have "createHandler demo_rm demo_deps demo_traffic_route
        (demo_request (JObject [(''volume'', JNumber 1)]))
       = (\<lparr>code = 400,
           obj = H [(''error'', JString ''Request validation failed''),
                    (''details'', JString ''trafficType is required'')]\<rparr>,
          [ValidateRequest_call])"
    by (simp only: demo_bad_errors demo_format simp_thms)
  with m b v show ?thesis by blast
qed

text \<open>
  Claim C9. The Go error of \<^verbatim>\<open>EvaluatePolicy\<close> and of \<^verbatim>\<open>EvaluatePolicies\<close> is always nil,
  and every outcome is told in the \<^verbatim>\<open>PolicyResult\<close>. \<^verbatim>\<open>EvaluatePolicy\<close> answers an unknown
  policy, an engine error, a missing result and a result that is no boolean each with
  \<^verbatim>\<open>Allowed: false\<close> and their own \<^verbatim>\<open>Error\<close> text, and a boolean result with that boolean.
  \<^verbatim>\<open>EvaluatePolicies\<close> allows when every named policy allows, and otherwise answers
  \<^verbatim>\<open>Allowed: false\<close> with the name of the first policy that does not. The handlers answer
  500 only in their \<^verbatim>\<open>err != nil\<close> branch, so they never answer 500.
\<close>

theorem policy_errors_always_nil:
  "snd (EvaluatePolicy pm n input) = None
   \<and> snd (fst (EvaluatePolicies pm names input)) = None
   \<and> (policies pm n = None \<longrightarrow>
        fst (EvaluatePolicy pm n input)
          = \<lparr>Allowed = False, Error = ''Policy '' @ n @ '' not found''\<rparr>)
   \<and> (\<forall>q err. policies pm n = Some q \<and> q input = Inl err \<longrightarrow>
        fst (EvaluatePolicy pm n input)
          = \<lparr>Allowed = False, Error = ''Policy evaluation error: '' @ err\<rparr>)
   \<and> (\<forall>q. policies pm n = Some q
            \<and> (q input = Inr [] \<or> (\<exists>rest. q input = Inr ([] # rest))) \<longrightarrow>
        fst (EvaluatePolicy pm n input)
          = \<lparr>Allowed = False, Error = ''No policy result found''\<rparr>)
   \<and> (\<forall>q v vs rest. policies pm n = Some q \<and> q input = Inr ((v # vs) # rest)
            \<and> (\<forall>b. v \<noteq> JBool b) \<longrightarrow>
        fst (EvaluatePolicy pm n input)
          = \<lparr>Allowed = False, Error = ''Policy result is not a boolean''\<rparr>)
   \<and> (\<forall>q b vs rest. policies pm n = Some q \<and> q input = Inr ((JBool b # vs) # rest) \<longrightarrow>
        fst (EvaluatePolicy pm n input) = \<lparr>Allowed = b, Error = ''''\<rparr>)
   \<and> ((\<forall>k\<in>set names. policy_allows pm input k) \<longrightarrow>
        fst (EvaluatePolicies pm names input) = (\<lparr>Allowed = True, Error = ''''\<rparr>, None))
   \<and> (\<not> (\<forall>k\<in>set names. policy_allows pm input k) \<longrightarrow>
        (\<exists>pre d post. names = pre @ d # post
           \<and> (\<forall>k\<in>set pre. policy_allows pm input k) \<and> \<not> policy_allows pm input d
           \<and> fst (EvaluatePolicies pm names input)
               = (\<lparr>Allowed = False, Error = ''Policy '' @ d @ '' denied the request''\<rparr>,
                  None)))
   \<and> code (fst (handleGET rm d route headers)) \<noteq> 500
   \<and> code (fst (handlePOST rm d route headers c)) \<noteq> 500
   \<and> code (fst (createHandler rm d route c)) \<noteq> 500"
proof (intro conjI)
  show "snd (EvaluatePolicy pm n input) = None"
    by (rule EvaluatePolicy_err)
  show "snd (fst (EvaluatePolicies pm names input)) = None"
    by (simp add: EvaluatePolicies_loop_eq loop_err)
  show "policies pm n = None \<longrightarrow>
        fst (EvaluatePolicy pm n input)
          = \<lparr>Allowed = False, Error = ''Policy '' @ n @ '' not found''\<rparr>"
    by (simp add: EvaluatePolicy_def)
  show "\<forall>q err. policies pm n = Some q \<and> q input = Inl err \<longrightarrow>
        fst (EvaluatePolicy pm n input)
          = \<lparr>Allowed = False, Error = ''Policy evaluation error: '' @ err\<rparr>"
    by (simp add: EvaluatePolicy_def)
  show "\<forall>q. policies pm n = Some q
            \<and> (q input = Inr [] \<or> (\<exists>rest. q input = Inr ([] # rest))) \<longrightarrow>
        fst (EvaluatePolicy pm n input)
          = \<lparr>Allowed = False, Error = ''No policy result found''\<rparr>"
    by (auto simp add: EvaluatePolicy_def)
  show "\<forall>q v vs rest. policies pm n = Some q \<and> q input = Inr ((v # vs) # rest)
            \<and> (\<forall>b. v \<noteq> JBool b) \<longrightarrow>
        fst (EvaluatePolicy pm n input)
          = \<lparr>Allowed = False, Error = ''Policy result is not a boolean''\<rparr>"
    by (auto simp add: EvaluatePolicy_def split: json.splits)
  show "\<forall>q b vs rest. policies pm n = Some q \<and> q input = Inr ((JBool b # vs) # rest) \<longrightarrow>
        fst (EvaluatePolicy pm n input) = \<lparr>Allowed = b, Error = ''''\<rparr>"
    by (simp add: EvaluatePolicy_def)
  show "(\<forall>k\<in>set names. policy_allows pm input k) \<longrightarrow>
        fst (EvaluatePolicies pm names input) = (\<lparr>Allowed = True, Error = ''''\<rparr>, None)"
    by (simp add: EvaluatePolicies_loop_eq loop_all_allow)
  show "\<not> (\<forall>k\<in>set names. policy_allows pm input k) \<longrightarrow>
        (\<exists>pre d post. names = pre @ d # post
           \<and> (\<forall>k\<in>set pre. policy_allows pm input k) \<and> \<not> policy_allows pm input d
           \<and> fst (EvaluatePolicies pm names input)
               = (\<lparr>Allowed = False, Error = ''Policy '' @ d @ '' denied the request''\<rparr>,
                  None))"
  proof
    assume "\<not> (\<forall>k\<in>set names. policy_allows pm input k)"
    from first_denial_split [OF this]
    obtain pre d post where s: "names = pre @ d # post"
      and a: "\<forall>k\<in>set pre. policy_allows pm input k" and n: "\<not> policy_allows pm input d"
      by blast
    from loop_first_denial [OF a n, of post]
    have "fst (EvaluatePolicies pm names input)
               = (\<lparr>Allowed = False, Error = ''Policy '' @ d @ '' denied the request''\<rparr>,
                  None)"
      by (simp add: EvaluatePolicies_loop_eq s)
    with s a n show "\<exists>pre d post. names = pre @ d # post
           \<and> (\<forall>k\<in>set pre. policy_allows pm input k) \<and> \<not> policy_allows pm input d
           \<and> fst (EvaluatePolicies pm names input)
               = (\<lparr>Allowed = False, Error = ''Policy '' @ d @ '' denied the request''\<rparr>,
                  None)"
      by blast
  qed
  have get: "code (fst (handleGET rm d route hs)) \<noteq> 500" for hs
  proof -
    obtain r calls where
      "EvaluatePolicies (policyManager rm) (Policies route)
         (CreatePolicyInput (json_Marshal_value d) (json_Unmarshal_map d) ''GET''
            (RouteName route) hs None)
       = ((r, None), calls)"
      by (rule EvaluatePolicies_cases)
    then show ?thesis by (simp add: handleGET_def Let_def)
  qed
  have post: "code (fst (handlePOST rm d route hs c)) \<noteq> 500" for hs
  proof (cases "ShouldBindJSON c")
    case (Inl err)
    then show ?thesis by (simp add: handlePOST_def)
  next
    case (Inr requestBody)
    obtain r calls where
      "EvaluatePolicies (policyManager rm) (Policies route)
         (CreatePolicyInput (json_Marshal_value d) (json_Unmarshal_map d) ''POST''
            (RouteName route) hs
            (if requestBody = JNull then None else Some requestBody)) = ((r, None), calls)"
      by (rule EvaluatePolicies_cases)
    with Inr show ?thesis by (simp add: handlePOST_def Let_def)
  qed
  show "code (fst (handleGET rm d route headers)) \<noteq> 500" by (rule get)
  show "code (fst (handlePOST rm d route headers c)) \<noteq> 500" by (rule post)
  show "code (fst (createHandler rm d route c)) \<noteq> 500"
    by (simp add: createHandler_def Let_def get post)
qed

theorem policy_errors_always_nil_witness:
  "EvaluatePolicy demo_pm ''zz'' Map.empty
     = (\<lparr>Allowed = False, Error = ''Policy zz not found''\<rparr>, None)
   \<and> EvaluatePolicy demo_pm ''e'' Map.empty
     = (\<lparr>Allowed = False, Error = ''Policy evaluation error: boom''\<rparr>, None)
   \<and> EvaluatePolicy demo_pm ''n'' Map.empty
     = (\<lparr>Allowed = False, Error = ''No policy result found''\<rparr>, None)
   \<and> EvaluatePolicy demo_pm ''s'' Map.empty
     = (\<lparr>Allowed = False, Error = ''Policy result is not a boolean''\<rparr>, None)
   \<and> EvaluatePolicy demo_pm ''b'' Map.empty = (\<lparr>Allowed = False, Error = ''''\<rparr>, None)
   \<and> EvaluatePolicy demo_pm ''a'' Map.empty = (\<lparr>Allowed = True, Error = ''''\<rparr>, None)
   \<and> fst (EvaluatePolicies demo_pm [''a'', ''b''] Map.empty)
     = (\<lparr>Allowed = False, Error = ''Policy b denied the request''\<rparr>, None)
   \<and> code (fst (createHandler demo_rm demo_deps demo_traffic_route (demo_request JNull)))
       \<noteq> 500"
proof -
  have p: "policies demo_pm ''zz'' = None"
    "policies demo_pm ''e'' = Some (\<lambda>input. Inl ''boom'')"
    "policies demo_pm ''n'' = Some (\<lambda>input. Inr [])"
    "policies demo_pm ''s'' = Some (\<lambda>input. Inr [[JString ''true'']])"
    "policies demo_pm ''b'' = Some (\<lambda>input. Inr [[JBool False]])"
    "policies demo_pm ''a'' = Some (\<lambda>input. Inr [[JBool True]])"
    by (simp_all add: demo_pm_def)
  have pair: "x = (fst x, snd x)" for x :: "PolicyResult \<times> go_error" by simp
  note at = policy_errors_always_nil [where pm = demo_pm and input = Map.empty
      and rm = demo_rm and d = demo_deps and route = demo_traffic_route
      and headers = Map.empty and c = "demo_request JNull"]
  from at [where n = "''zz''" and names = "[]"] p(1)
  have 1: "EvaluatePolicy demo_pm ''zz'' Map.empty
     = (\<lparr>Allowed = False, Error = ''Policy zz not found''\<rparr>, None)"
    by (subst pair) auto
  from at [where n = "''e''" and names = "[]"] p(2)
  have 2: "EvaluatePolicy demo_pm ''e'' Map.empty
     = (\<lparr>Allowed = False, Error = ''Policy evaluation error: boom''\<rparr>, None)"
    by (subst pair) auto
  from at [where n = "''n''" and names = "[]"] p(3)
  have 3: "EvaluatePolicy demo_pm ''n'' Map.empty
     = (\<lparr>Allowed = False, Error = ''No policy result found''\<rparr>, None)"
    by (subst pair) auto
  from at [where n = "''s''" and names = "[]"] p(4)
  have 4: "EvaluatePolicy demo_pm ''s'' Map.empty
     = (\<lparr>Allowed = False, Error = ''Policy result is not a boolean''\<rparr>, None)"
    by (subst pair) auto
  from at [where n = "''b''" and names = "[]"] p(5)
  have 5: "EvaluatePolicy demo_pm ''b'' Map.empty = (\<lparr>Allowed = False, Error = ''''\<rparr>, None)"
    by (subst pair) auto
  note last = at [where n = "''a''" and names = "[''a'', ''b'']"]
  from last p(6)
  have 6: "EvaluatePolicy demo_pm ''a'' Map.empty = (\<lparr>Allowed = True, Error = ''''\<rparr>, None)"
    by (subst pair) auto
  from last
  have 8: "code (fst (createHandler demo_rm demo_deps demo_traffic_route (demo_request JNull)))
       \<noteq> 500"
    by blast
  from last
  have imp: "\<not> (\<forall>k\<in>set [''a'', ''b'']. policy_allows demo_pm Map.empty k) \<longrightarrow>
        (\<exists>pre d post. [''a'', ''b''] = pre @ d # post
           \<and> (\<forall>k\<in>set pre. policy_allows demo_pm Map.empty k)
           \<and> \<not> policy_allows demo_pm Map.empty d
           \<and> fst (EvaluatePolicies demo_pm [''a'', ''b''] Map.empty)
               = (\<lparr>Allowed = False, Error = ''Policy '' @ d @ '' denied the request''\<rparr>,
                  None))"
    by blast
  have a: "policy_allows demo_pm Map.empty ''a''" and b: "\<not> policy_allows demo_pm Map.empty ''b''"
    by (simp_all add: policy_allows_def 5 6)
  from b have "\<not> (\<forall>k\<in>set [''a'', ''b'']. policy_allows demo_pm Map.empty k)" by simp
  with imp obtain pre d post where s: "[''a'', ''b''] = pre @ d # post"
    and d: "\<not> policy_allows demo_pm Map.empty d"
    and r: "fst (EvaluatePolicies demo_pm [''a'', ''b''] Map.empty)
               = (\<lparr>Allowed = False, Error = ''Policy '' @ d @ '' denied the request''\<rparr>,
                  None)"
    by blast
  from s have "d \<in> set [''a'', ''b'']" by (metis in_set_conv_decomp)
  with d a have "d = ''b''" by auto
  with r have 7: "fst (EvaluatePolicies demo_pm [''a'', ''b''] Map.empty)
     = (\<lparr>Allowed = False, Error = ''Policy b denied the request''\<rparr>, None)"
    by simp
  from 1 2 3 4 5 6 7 8 show ?thesis by simp
qed

text \<open>
  Claim C8 as stated fails on the registration: it is gin that registers, and gin panics
  on a method and path that already have a handler. Here a PUT route is registered once
  without error, and registering it again panics.
\<close>

theorem PUT_DELETE_registration_panics_counterexample:
  "Method demo_put_route = ''PUT''
   \<and> registerRoute demo_gin_Handle [] demo_put_route
       = Some ([(''PUT'', ''/v1/services/:serviceId/traffic'', demo_put_route)], None)
   \<and> registerRoute demo_gin_Handle
        [(''PUT'', ''/v1/services/:serviceId/traffic'', demo_put_route)] demo_put_route
       = None"
  by (simp add: registerRoute_def demo_gin_Handle_def demo_put_route_def)

text \<open>
  Claim C8, amended. For a route whose method is PUT or DELETE \<^verbatim>\<open>registerRoute\<close> never
  refuses the method: it hands the route to gin under that method, returns a nil error
  when gin takes it, and panics when gin does. The handler answers every request with
  405 \<^verbatim>\<open>Method not allowed\<close>, making no call at all: no validation, no policy evaluation,
  no response generation.
\<close>

theorem PUT_DELETE_registered_not_served:
  assumes "Method route = ''PUT'' \<or> Method route = ''DELETE''"
  shows "registerRoute gin_Handle router route =
           (case gin_Handle router (Method route) (RouteName route) route of
              None \<Rightarrow> None
            | Some router' \<Rightarrow> Some (router', None))
         \<and> createHandler rm d route c =
             (\<lparr>code = 405, obj = H [(''error'', JString ''Method not allowed'')]\<rparr>, [])"
  using assms by (auto simp add: registerRoute_def createHandler_def)

theorem PUT_DELETE_registered_not_served_witness:
  "Method demo_put_route = ''PUT''
   \<and> registerRoute demo_gin_Handle [] demo_put_route
       = Some ([(''PUT'', ''/v1/services/:serviceId/traffic'', demo_put_route)], None)
   \<and> createHandler demo_rm demo_deps demo_put_route
        (demo_request (JObject [(''volume'', JNumber 1)]))
       = (\<lparr>code = 405, obj = H [(''error'', JString ''Method not allowed'')]\<rparr>, [])"
proof -
  have m: "Method demo_put_route = ''PUT''" by (simp add: demo_put_route_def)
  then have "Method demo_put_route = ''PUT'' \<or> Method demo_put_route = ''DELETE''" by simp
  from PUT_DELETE_registered_not_served [OF this, of demo_gin_Handle "[]" demo_rm demo_deps
         "demo_request (JObject [(''volume'', JNumber 1)])"] m
  show ?thesis by (simp add: demo_gin_Handle_def demo_put_route_def)
qed

text \<open>
  Claim C7. On the empty name list \<^verbatim>\<open>EvaluatePolicies\<close> answers \<^verbatim>\<open>Allowed: true\<close> and
  evaluates nothing. A route without policies therefore passes the policy stage: its GET
  handler answers 200 and its POST handler never answers 403 or 500.
\<close>

theorem EvaluatePolicies_empty:
  "EvaluatePolicies pm [] input = ((\<lparr>Allowed = True, Error = ''''\<rparr>, None), [])
   \<and> code (fst (handleGET rm d (route\<lparr>Policies := []\<rparr>) headers)) = 200
   \<and> code (fst (handlePOST rm d (route\<lparr>Policies := []\<rparr>) headers c)) \<noteq> 403
   \<and> code (fst (handlePOST rm d (route\<lparr>Policies := []\<rparr>) headers c)) \<noteq> 500"
  by (auto simp add: EvaluatePolicies_def handleGET_def handlePOST_def Let_def
      split: sum.splits)

theorem EvaluatePolicies_empty_witness:
  "EvaluatePolicies demo_pm [] Map.empty = ((\<lparr>Allowed = True, Error = ''''\<rparr>, None), [])
   \<and> code (fst (handleGET demo_rm demo_deps (demo_status_route\<lparr>Policies := []\<rparr>)
                    Map.empty)) = 200
   \<and> code (fst (handlePOST demo_rm demo_deps (demo_status_route\<lparr>Policies := []\<rparr>)
                    Map.empty (demo_request JNull))) \<noteq> 403
   \<and> code (fst (handlePOST demo_rm demo_deps (demo_status_route\<lparr>Policies := []\<rparr>)
                    Map.empty (demo_request JNull))) \<noteq> 500"
  by (rule EvaluatePolicies_empty)

lemma handleGET_allowed:
  assumes "Allowed (fst (fst (EvaluatePolicies (policyManager rm) (Policies route)
             (CreatePolicyInput (json_Marshal_value d) (json_Unmarshal_map d) ''GET''
                (RouteName route) headers None))))"
  shows "handleGET rm d route headers =
     (if RouteName route = ''/v1/status'' then
        (\<lparr>code = 200, obj = StatusObj (GenerateStatusResponse (time_Now d 0))\<rparr>,
         snd (EvaluatePolicies (policyManager rm) (Policies route)
                (CreatePolicyInput (json_Marshal_value d) (json_Unmarshal_map d) ''GET''
                   (RouteName route) headers None))
           @ [GenerateStatusResponse_call, ValidateStatusResponse_call]
           @ (if Valid (ValidateStatusResponse d (GenerateStatusResponse (time_Now d 0)))
              then []
              else [log_Printf_ResponseValidationFailed
                      (Errors (ValidateStatusResponse d
                                 (GenerateStatusResponse (time_Now d 0))))]))
      else
        (\<lparr>code = 200,
          obj = H [(''message'', JString ''GET request processed successfully''),
                   (''route'', JString (RouteName route)),
                   (''method'', JString (Method route))]\<rparr>,
         snd (EvaluatePolicies (policyManager rm) (Policies route)
                (CreatePolicyInput (json_Marshal_value d) (json_Unmarshal_map d) ''GET''
                   (RouteName route) headers None))))"
proof -
  define res where "res = EvaluatePolicies (policyManager rm) (Policies route)
             (CreatePolicyInput (json_Marshal_value d) (json_Unmarshal_map d) ''GET''
                (RouteName route) headers None)"
  obtain r calls where e: "res = ((r, None), calls)"
    unfolding res_def by (rule EvaluatePolicies_cases)
  from assms have ar: "Allowed r" by (simp add: res_def [symmetric] e)
  show ?thesis
    unfolding handleGET_def Let_def res_def [symmetric] e by (simp add: ar)
qed

lemma handlePOST_allowed:
  assumes "ShouldBindJSON c = Inr requestBody"
      and "Valid (ValidateRequest (json_Marshal_schema d) (json_Marshal_value d)
              (gojsonschema_Validate d) (RequestSchema route) requestBody)"
      and "Allowed (fst (fst (EvaluatePolicies (policyManager rm) (Policies route)
             (CreatePolicyInput (json_Marshal_value d) (json_Unmarshal_map d) ''POST''
                (RouteName route) headers
                (if requestBody = JNull then None else Some requestBody)))))"
  shows "handlePOST rm d route headers c =
     (if Contains (RouteName route) ''/services/'' \<and> HasSuffix (RouteName route) ''/traffic''
      then
        if length (Split (URL_Path c) CHR ''/'') \<ge> 4 then
          (\<lparr>code = 200,
            obj = TrafficObj
                    (GenerateTrafficResponse (time_Format d) (time_Now d 0) (time_Now d 1)
                       (Split (URL_Path c) CHR ''/'' ! 3) request)\<rparr>,
           ValidateRequest_call
             # snd (EvaluatePolicies (policyManager rm) (Policies route)
                      (CreatePolicyInput (json_Marshal_value d) (json_Unmarshal_map d) ''POST''
                         (RouteName route) headers
                         (if requestBody = JNull then None else Some requestBody)))
             @ [GenerateTrafficResponse_call, ValidateTrafficResponse_call]
             @ (if Valid (ValidateTrafficResponse d
                     (GenerateTrafficResponse (time_Format d) (time_Now d 0) (time_Now d 1)
                        (Split (URL_Path c) CHR ''/'' ! 3) request))
                then []
                else [log_Printf_ResponseValidationFailed
                        (Errors (ValidateTrafficResponse d
                           (GenerateTrafficResponse (time_Format d) (time_Now d 0)
                              (time_Now d 1) (Split (URL_Path c) CHR ''/'' ! 3) request)))]))
        else
          (\<lparr>code = 200, obj = NilObj\<rparr>,
           ValidateRequest_call
             # snd (EvaluatePolicies (policyManager rm) (Policies route)
                      (CreatePolicyInput (json_Marshal_value d) (json_Unmarshal_map d) ''POST''
                         (RouteName route) headers
                         (if requestBody = JNull then None else Some requestBody))))
      else
        (\<lparr>code = 200,
          obj = H [(''message'', JString ''POST request processed successfully''),
                   (''route'', JString (RouteName route)),
                   (''method'', JString (Method route)),
                   (''data'', requestBody)]\<rparr>,
         ValidateRequest_call
           # snd (EvaluatePolicies (policyManager rm) (Policies route)
                    (CreatePolicyInput (json_Marshal_value d) (json_Unmarshal_map d) ''POST''
                       (RouteName route) headers
                       (if requestBody = JNull then None else Some requestBody)))))"
proof -
  define res where "res = EvaluatePolicies (policyManager rm) (Policies route)
             (CreatePolicyInput (json_Marshal_value d) (json_Unmarshal_map d) ''POST''
                (RouteName route) headers
                (if requestBody = JNull then None else Some requestBody))"
  obtain r calls where e: "res = ((r, None), calls)"
    unfolding res_def by (rule EvaluatePolicies_cases)
  from assms(3) have ar: "Allowed r" by (simp add: res_def [symmetric] e)
  show ?thesis
    unfolding handlePOST_def Let_def assms(1) sum.case res_def [symmetric] e
    by (simp add: ar assms(2) GenerateTrafficResponse_def)
qed

lemma ResponseSchema_not_read:
  "handleGET rm d (route\<lparr>ResponseSchema := s\<rparr>) headers = handleGET rm d route headers"
  "handlePOST rm d (route\<lparr>ResponseSchema := s\<rparr>) headers c = handlePOST rm d route headers c"
  by (simp_all add: handleGET_def handlePOST_def Let_def
      cong: prod.case_cong option.case_cong sum.case_cong if_cong)

text \<open>
  Claim C4, amended. Checking the response is not terminal. Once the policies allow a
  request (for POST: a decoded body that passed request validation) the answer is 200,
  and answer and calls are fixed as follows. A check is made only of the status response
  of \<^verbatim>\<open>/v1/status\<close> and of the traffic response, against the schema built into the
  validator: the answer carries the generated response whatever the check finds, and a
  failed check adds one log entry after the check and nothing else. Every other route
  answers its generic message (a traffic route whose path has fewer than four parts
  answers nil) with no check and no log entry. The route's \<^verbatim>\<open>ResponseSchema\<close> is not
  read: neither the answer nor the calls depend on it.
\<close>

theorem response_validation_is_advisory:
  "(Allowed (fst (fst (EvaluatePolicies (policyManager rm) (Policies route)
       (CreatePolicyInput (json_Marshal_value d) (json_Unmarshal_map d) ''GET''
          (RouteName route) headers None)))) \<longrightarrow>
    handleGET rm d route headers =
     (if RouteName route = ''/v1/status'' then
        (\<lparr>code = 200, obj = StatusObj (GenerateStatusResponse (time_Now d 0))\<rparr>,
         snd (EvaluatePolicies (policyManager rm) (Policies route)
                (CreatePolicyInput (json_Marshal_value d) (json_Unmarshal_map d) ''GET''
                   (RouteName route) headers None))
           @ [GenerateStatusResponse_call, ValidateStatusResponse_call]
           @ (if Valid (ValidateStatusResponse d (GenerateStatusResponse (time_Now d 0)))
              then []
              else [log_Printf_ResponseValidationFailed
                      (Errors (ValidateStatusResponse d
                                 (GenerateStatusResponse (time_Now d 0))))]))
      else
        (\<lparr>code = 200,
          obj = H [(''message'', JString ''GET request processed successfully''),
                   (''route'', JString (RouteName route)),
                   (''method'', JString (Method route))]\<rparr>,
         snd (EvaluatePolicies (policyManager rm) (Policies route)
                (CreatePolicyInput (json_Marshal_value d) (json_Unmarshal_map d) ''GET''
                   (RouteName route) headers None)))))
   \<and> (ShouldBindJSON c = Inr requestBody
       \<and> Valid (ValidateRequest (json_Marshal_schema d) (json_Marshal_value d)
                  (gojsonschema_Validate d) (RequestSchema route) requestBody)
       \<and> Allowed (fst (fst (EvaluatePolicies (policyManager rm) (Policies route)
            (CreatePolicyInput (json_Marshal_value d) (json_Unmarshal_map d) ''POST''
               (RouteName route) headers
               (if requestBody = JNull then None else Some requestBody))))) \<longrightarrow>
    handlePOST rm d route headers c =
     (if Contains (RouteName route) ''/services/'' \<and> HasSuffix (RouteName route) ''/traffic''
      then
        if length (Split (URL_Path c) CHR ''/'') \<ge> 4 then
          (\<lparr>code = 200,
            obj = TrafficObj
                    (GenerateTrafficResponse (time_Format d) (time_Now d 0) (time_Now d 1)
                       (Split (URL_Path c) CHR ''/'' ! 3) request)\<rparr>,
           ValidateRequest_call
             # snd (EvaluatePolicies (policyManager rm) (Policies route)
                      (CreatePolicyInput (json_Marshal_value d) (json_Unmarshal_map d) ''POST''
                         (RouteName route) headers
                         (if requestBody = JNull then None else Some requestBody)))
             @ [GenerateTrafficResponse_call, ValidateTrafficResponse_call]
             @ (if Valid (ValidateTrafficResponse d
                     (GenerateTrafficResponse (time_Format d) (time_Now d 0) (time_Now d 1)
                        (Split (URL_Path c) CHR ''/'' ! 3) request))
                then []
                else [log_Printf_ResponseValidationFailed
                        (Errors (ValidateTrafficResponse d
                           (GenerateTrafficResponse (time_Format d) (time_Now d 0)
                              (time_Now d 1) (Split (URL_Path c) CHR ''/'' ! 3) request)))]))
        else
          (\<lparr>code = 200, obj = NilObj\<rparr>,
           ValidateRequest_call
             # snd (EvaluatePolicies (policyManager rm) (Policies route)
                      (CreatePolicyInput (json_Marshal_value d) (json_Unmarshal_map d) ''POST''
                         (RouteName route) headers
                         (if requestBody = JNull then None else Some requestBody))))
      else
        (\<lparr>code = 200,
          obj = H [(''message'', JString ''POST request processed successfully''),
                   (''route'', JString (RouteName route)),
                   (''method'', JString (Method route)),
                   (''data'', requestBody)]\<rparr>,
         ValidateRequest_call
           # snd (EvaluatePolicies (policyManager rm) (Policies route)
                    (CreatePolicyInput (json_Marshal_value d) (json_Unmarshal_map d) ''POST''
                       (RouteName route) headers
                       (if requestBody = JNull then None else Some requestBody))))))
   \<and> handleGET rm d (route\<lparr>ResponseSchema := s\<rparr>) headers = handleGET rm d route headers
   \<and> handlePOST rm d (route\<lparr>ResponseSchema := s\<rparr>) headers c
       = handlePOST rm d route headers c"
proof (intro conjI impI)
  assume "Allowed (fst (fst (EvaluatePolicies (policyManager rm) (Policies route)
       (CreatePolicyInput (json_Marshal_value d) (json_Unmarshal_map d) ''GET''
          (RouteName route) headers None))))"
  then show "handleGET rm d route headers =
     (if RouteName route = ''/v1/status'' then
        (\<lparr>code = 200, obj = StatusObj (GenerateStatusResponse (time_Now d 0))\<rparr>,
         snd (EvaluatePolicies (policyManager rm) (Policies route)
                (CreatePolicyInput (json_Marshal_value d) (json_Unmarshal_map d) ''GET''
                   (RouteName route) headers None))
           @ [GenerateStatusResponse_call, ValidateStatusResponse_call]
           @ (if Valid (ValidateStatusResponse d (GenerateStatusResponse (time_Now d 0)))
              then []
              else [log_Printf_ResponseValidationFailed
                      (Errors (ValidateStatusResponse d
                                 (GenerateStatusResponse (time_Now d 0))))]))
      else
        (\<lparr>code = 200,
          obj = H [(''message'', JString ''GET request processed successfully''),
                   (''route'', JString (RouteName route)),
                   (''method'', JString (Method route))]\<rparr>,
         snd (EvaluatePolicies (policyManager rm) (Policies route)
                (CreatePolicyInput (json_Marshal_value d) (json_Unmarshal_map d) ''GET''
                   (RouteName route) headers None))))"
    by (rule handleGET_allowed)
next
  assume a: "ShouldBindJSON c = Inr requestBody
       \<and> Valid (ValidateRequest (json_Marshal_schema d) (json_Marshal_value d)
                  (gojsonschema_Validate d) (RequestSchema route) requestBody)
       \<and> Allowed (fst (fst (EvaluatePolicies (policyManager rm) (Policies route)
            (CreatePolicyInput (json_Marshal_value d) (json_Unmarshal_map d) ''POST''
               (RouteName route) headers
               (if requestBody = JNull then None else Some requestBody)))))"
  show "handlePOST rm d route headers c =
     (if Contains (RouteName route) ''/services/'' \<and> HasSuffix (RouteName route) ''/traffic''
      then
        if length (Split (URL_Path c) CHR ''/'') \<ge> 4 then
          (\<lparr>code = 200,
            obj = TrafficObj
                    (GenerateTrafficResponse (time_Format d) (time_Now d 0) (time_Now d 1)
                       (Split (URL_Path c) CHR ''/'' ! 3) request)\<rparr>,
           ValidateRequest_call
             # snd (EvaluatePolicies (policyManager rm) (Policies route)
                      (CreatePolicyInput (json_Marshal_value d) (json_Unmarshal_map d) ''POST''
                         (RouteName route) headers
                         (if requestBody = JNull then None else Some requestBody)))
             @ [GenerateTrafficResponse_call, ValidateTrafficResponse_call]
             @ (if Valid (ValidateTrafficResponse d
                     (GenerateTrafficResponse (time_Format d) (time_Now d 0) (time_Now d 1)
                        (Split (URL_Path c) CHR ''/'' ! 3) request))
                then []
                else [log_Printf_ResponseValidationFailed
                        (Errors (ValidateTrafficResponse d
                           (GenerateTrafficResponse (time_Format d) (time_Now d 0)
                              (time_Now d 1) (Split (URL_Path c) CHR ''/'' ! 3) request)))]))
        else
          (\<lparr>code = 200, obj = NilObj\<rparr>,
           ValidateRequest_call
             # snd (EvaluatePolicies (policyManager rm) (Policies route)
                      (CreatePolicyInput (json_Marshal_value d) (json_Unmarshal_map d) ''POST''
                         (RouteName route) headers
                         (if requestBody = JNull then None else Some requestBody))))
      else
        (\<lparr>code = 200,
          obj = H [(''message'', JString ''POST request processed successfully''),
                   (''route'', JString (RouteName route)),
                   (''method'', JString (Method route)),
                   (''data'', requestBody)]\<rparr>,
         ValidateRequest_call
           # snd (EvaluatePolicies (policyManager rm) (Policies route)
                    (CreatePolicyInput (json_Marshal_value d) (json_Unmarshal_map d) ''POST''
                       (RouteName route) headers
                       (if requestBody = JNull then None else Some requestBody)))))"
    by (rule handlePOST_allowed [OF conjunct1 [OF a] conjunct1 [OF conjunct2 [OF a]]
          conjunct2 [OF conjunct2 [OF a]]])
next
  show "handleGET rm d (route\<lparr>ResponseSchema := s\<rparr>) headers = handleGET rm d route headers"
    by (rule ResponseSchema_not_read(1))
  show "handlePOST rm d (route\<lparr>ResponseSchema := s\<rparr>) headers c
       = handlePOST rm d route headers c"
    by (rule ResponseSchema_not_read(2))
qed

lemma demo_a_allowed:
  "EvaluatePolicies (policyManager demo_rm) [''a''] input
     = ((\<lparr>Allowed = True, Error = ''''\<rparr>, None), [EvaluatePolicy_call ''a''])"
  "EvaluatePolicies (policyManager demo_rm) (Policies demo_traffic_route) input
     = ((\<lparr>Allowed = True, Error = ''''\<rparr>, None), [EvaluatePolicy_call ''a''])"
  "EvaluatePolicies (policyManager demo_rm) (Policies demo_echo_route) input
     = ((\<lparr>Allowed = True, Error = ''''\<rparr>, None), [EvaluatePolicy_call ''a''])"
  "EvaluatePolicies (policyManager demo_rm) (Policies demo_status_route) input
     = ((\<lparr>Allowed = True, Error = ''''\<rparr>, None), [EvaluatePolicy_call ''a''])"
  by (simp_all add: EvaluatePolicies_def EvaluatePolicy_def demo_pm_def demo_rm_def
      demo_traffic_route_def demo_echo_route_def demo_status_route_def)

lemma demo_good_valid:
  "Valid (ValidateRequest (json_Marshal_schema demo_deps) (json_Marshal_value demo_deps)
     (gojsonschema_Validate demo_deps) (RequestSchema demo_traffic_route)
     (JObject [(''trafficType'', JString ''incoming'')]))"
  by (simp add: ValidateRequest_def demo_deps_def demo_traffic_route_def demo_Validate_def
      demo_required_def)

lemma demo_echo_valid:
  "Valid (ValidateRequest (json_Marshal_schema demo_deps) (json_Marshal_value demo_deps)
     (gojsonschema_Validate demo_deps) (RequestSchema demo_echo_route) body)"
  by (simp add: ValidateRequest_def demo_echo_route_def)

lemma demo_names:
  "Contains (RouteName demo_traffic_route) ''/services/''"
  "HasSuffix (RouteName demo_traffic_route) ''/traffic''"
  "\<not> Contains (RouteName demo_echo_route) ''/services/''"
  "RouteName demo_status_route = ''/v1/status''"
  by (simp_all add: demo_traffic_route_def demo_echo_route_def demo_status_route_def
      HasSuffix_def)

lemma demo_request_fields:
  "ShouldBindJSON (demo_request body) = Inr body"
  "Split (URL_Path (demo_request body)) CHR ''/''
     = ['''', ''v1'', ''services'', ''s1'', ''traffic'']"
  by (simp_all add: demo_request_def)

lemma demo_generated:
  "GenerateTrafficResponse (time_Format demo_deps) (time_Now demo_deps 0)
     (time_Now demo_deps (Suc 0)) ''s1'' request
   = \<lparr>ID = ''traffic-20231114221320'', ServiceID = ''s1'', Status_T = ''accepted'',
      Message = ''Traffic request processed successfully'', Timestamp_T = 1700000001\<rparr>"
  "GenerateStatusResponse (time_Now demo_deps 0)
   = \<lparr>Status = ''healthy'', Timestamp = 1700000000, Version = ''1.0.0'', Uptime = 3600\<rparr>"
  by (simp_all add: GenerateTrafficResponse_def generateID_def GenerateStatusResponse_def
      demo_deps_def)

lemma demo_checks:
  "ValidateTrafficResponse demo_deps
     \<lparr>ID = ''traffic-20231114221320'', ServiceID = ''s1'', Status_T = ''accepted'',
      Message = ''Traffic request processed successfully'', Timestamp_T = 1700000001\<rparr>
   = \<lparr>Valid = True, Errors = [], Details = ''''\<rparr>"
  "ValidateStatusResponse demo_deps
     \<lparr>Status = ''healthy'', Timestamp = 1700000000, Version = ''1.0.0'', Uptime = 3600\<rparr>
   = \<lparr>Valid = True, Errors = [], Details = ''''\<rparr>"
  by (simp_all add: ValidateTrafficResponse_def ValidateStatusResponse_def
      ValidateResponse_def ValidateRequest_def demo_deps_def
      demo_Validate_def demo_required_def traffic_response_schema_def
      status_response_schema_def Itoa.simps)

theorem response_validation_is_advisory_witness:
  "handleGET demo_rm demo_deps demo_status_route Map.empty
     = (\<lparr>code = 200,
         obj = StatusObj \<lparr>Status = ''healthy'', Timestamp = 1700000000, Version = ''1.0.0'',
                          Uptime = 3600\<rparr>\<rparr>,
        [EvaluatePolicy_call ''a'', GenerateStatusResponse_call, ValidateStatusResponse_call])
   \<and> handlePOST demo_rm demo_deps demo_traffic_route Map.empty
        (demo_request (JObject [(''trafficType'', JString ''incoming'')]))
     = (\<lparr>code = 200,
         obj = TrafficObj
           \<lparr>ID = ''traffic-20231114221320'', ServiceID = ''s1'', Status_T = ''accepted'',
            Message = ''Traffic request processed successfully'',
            Timestamp_T = 1700000001\<rparr>\<rparr>,
        [ValidateRequest_call, EvaluatePolicy_call ''a'', GenerateTrafficResponse_call,
         ValidateTrafficResponse_call])
   \<and> handlePOST demo_rm demo_deps demo_echo_route Map.empty
        (demo_request (JObject [(''trafficType'', JString ''incoming'')]))
     = (\<lparr>code = 200,
         obj = H [(''message'', JString ''POST request processed successfully''),
                  (''route'', JString ''/v1/echo''), (''method'', JString ''POST''),
                  (''data'', JObject [(''trafficType'', JString ''incoming'')])]\<rparr>,
        [ValidateRequest_call, EvaluatePolicy_call ''a''])"
proof -
  let ?body = "JObject [(''trafficType'', JString ''incoming'')]"
  let ?req = "\<lparr>TrafficType = '''', Volume = 0, Priority = '''', Metadata = None\<rparr>"
  note facts = demo_a_allowed demo_names demo_request_fields demo_generated demo_checks
  from response_validation_is_advisory
         [where rm = demo_rm and d = demo_deps and route = demo_status_route
            and headers = Map.empty and c = "demo_request ?body" and requestBody = ?body
            and request = ?req and s = None]
  have 1: "handleGET demo_rm demo_deps demo_status_route Map.empty
     = (\<lparr>code = 200,
         obj = StatusObj \<lparr>Status = ''healthy'', Timestamp = 1700000000, Version = ''1.0.0'',
                          Uptime = 3600\<rparr>\<rparr>,
        [EvaluatePolicy_call ''a'', GenerateStatusResponse_call, ValidateStatusResponse_call])"
    by (simp add: facts)
  from response_validation_is_advisory
         [where rm = demo_rm and d = demo_deps and route = demo_traffic_route
            and headers = Map.empty and c = "demo_request ?body" and requestBody = ?body
            and request = ?req and s = None]
       demo_good_valid
  have 2: "handlePOST demo_rm demo_deps demo_traffic_route Map.empty (demo_request ?body)
     = (\<lparr>code = 200,
         obj = TrafficObj
           \<lparr>ID = ''traffic-20231114221320'', ServiceID = ''s1'', Status_T = ''accepted'',
            Message = ''Traffic request processed successfully'',
            Timestamp_T = 1700000001\<rparr>\<rparr>,
        [ValidateRequest_call, EvaluatePolicy_call ''a'', GenerateTrafficResponse_call,
         ValidateTrafficResponse_call])"
    by (simp add: facts)
  from response_validation_is_advisory
         [where rm = demo_rm and d = demo_deps and route = demo_echo_route
            and headers = Map.empty and c = "demo_request ?body" and requestBody = ?body
            and request = ?req and s = None]
       demo_echo_valid [of ?body]
  have 3: "handlePOST demo_rm demo_deps demo_echo_route Map.empty
        (demo_request ?body)
     = (\<lparr>code = 200,
         obj = H [(''message'', JString ''POST request processed successfully''),
                  (''route'', JString ''/v1/echo''), (''method'', JString ''POST''),
                  (''data'', ?body)]\<rparr>,
        [ValidateRequest_call, EvaluatePolicy_call ''a''])"
    by (simp add: facts demo_echo_route_def)
  from 1 2 3 show ?thesis by blast
qed

text \<open>
  Claim C4 as stated fails on the schema: \<^verbatim>\<open>route.ResponseSchema\<close> is never read. Here the
  status response lacks the member the route's response schema requires, and the handler
  answers 200 with nothing logged.
\<close>

theorem route_response_schema_counterexample:
  "\<not> Valid (ValidateResponse (json_Marshal_schema demo_deps)
              (json_Marshal_StatusResponse demo_deps) (gojsonschema_Validate demo_deps)
              (ResponseSchema demo_region_route) (GenerateStatusResponse (time_Now demo_deps 0)))
   \<and> handleGET demo_rm demo_deps demo_region_route Map.empty =
       (\<lparr>code = 200, obj = StatusObj (GenerateStatusResponse (time_Now demo_deps 0))\<rparr>,
        [EvaluatePolicy_call ''a'', GenerateStatusResponse_call, ValidateStatusResponse_call])"
proof
  show "\<not> Valid (ValidateResponse (json_Marshal_schema demo_deps)
              (json_Marshal_StatusResponse demo_deps) (gojsonschema_Validate demo_deps)
              (ResponseSchema demo_region_route) (GenerateStatusResponse (time_Now demo_deps 0)))"
    by (simp add: ValidateResponse_def ValidateRequest_def demo_deps_def demo_Validate_def
        demo_required_def demo_region_route_def GenerateStatusResponse_def)
  have v: "Valid (ValidateStatusResponse demo_deps (GenerateStatusResponse (time_Now demo_deps 0)))"
    by (simp add: demo_generated demo_checks)
  show "handleGET demo_rm demo_deps demo_region_route Map.empty =
       (\<lparr>code = 200, obj = StatusObj (GenerateStatusResponse (time_Now demo_deps 0))\<rparr>,
        [EvaluatePolicy_call ''a'', GenerateStatusResponse_call, ValidateStatusResponse_call])"
    using v by (simp add: handleGET_def Let_def demo_a_allowed(1) demo_region_route_def)
qed


end
